theory Spec2Isabelle
  imports Main
begin

section \<open>The GPTMail client (\<open>src/core/gptmail_client.py\<close>)\<close>

text \<open>
  The client registers a disposable mailbox with a provider and polls it for a
  verification code. Everything it does beyond returning a value is written out:
  the client object is a record that is returned updated, the outside world (HTTP
  calls, sleeps, log callback invocations, calls of the code extractor) is a
  chronological trace of events, and every Python exception is a value \<open>Inl e\<close>
  of a sum type, so that each \<open>try\<close>/\<open>except\<close> of the source is a case
  distinction of the model.
\<close>

subsection \<open>Python values\<close>

text \<open>
  The exceptions that the modelled code can meet. All of them are subclasses of
  Python's \<open>Exception\<close>, which is what the handlers of the source catch.
\<close>

datatype py_error =
    ZeroDivisionError
  | ValueError
  | TypeError
  | KeyError
  | AttributeError
  | OverflowError
  | RequestException

text \<open>
  A decoded JSON document, as \<open>res.json()\<close> returns it: \<open>None\<close>, a bool, a
  number, a string, a list, or a dict (an association list in insertion order, read
  with \<open>map_of\<close>). Numbers are integers here; the client only ever tests a
  number for being zero.
\<close>

datatype json =
    JNull
  | JBool bool
  | JNum int
  | JStr string
  | JArr "json list"
  | JObj "(string \<times> json) list"

text \<open>Python truthiness (\<open>if x:\<close>).\<close>

fun truthy :: "json \<Rightarrow> bool" where
  "truthy JNull = False"
| "truthy (JBool b) = b"
| "truthy (JNum n) = (n \<noteq> 0)"
| "truthy (JStr s) = (s \<noteq> [])"
| "truthy (JArr xs) = (xs \<noteq> [])"
| "truthy (JObj kvs) = (kvs \<noteq> [])"

text \<open>\<open>obj.get(key, default)\<close>: only a dict has the method.\<close>

fun py_get :: "json \<Rightarrow> string \<Rightarrow> json \<Rightarrow> py_error + json" where
  "py_get (JObj kvs) key dflt = Inr (case map_of kvs key of None \<Rightarrow> dflt | Some v \<Rightarrow> v)"
| "py_get _ key dflt = Inl AttributeError"

text \<open>\<open>obj[key]\<close> with a string key.\<close>

fun py_subscript :: "json \<Rightarrow> string \<Rightarrow> py_error + json" where
  "py_subscript (JObj kvs) key = (case map_of kvs key of None \<Rightarrow> Inl KeyError | Some v \<Rightarrow> Inr v)"
| "py_subscript _ key = Inl TypeError"

text \<open>
  \<open>for msg in obj\<close>: a list yields its elements, a dict its keys, a string its
  characters; nothing else is iterable.
\<close>

fun py_iter :: "json \<Rightarrow> py_error + json list" where
  "py_iter (JArr xs) = Inr xs"
| "py_iter (JObj kvs) = Inr (map (\<lambda>kv. JStr (fst kv)) kvs)"
| "py_iter (JStr s) = Inr (map (\<lambda>ch. JStr [ch]) s)"
| "py_iter _ = Inl TypeError"

text \<open>\<open>a + " " + b\<close>: defined on two strings only.\<close>

fun py_join :: "json \<Rightarrow> json \<Rightarrow> py_error + string" where
  "py_join (JStr a) (JStr b) = Inr (a @ '' '' @ b)"
| "py_join _ _ = Inl TypeError"

text \<open>\<open>a // b\<close> on integers: floor division, raising on a zero divisor.\<close>

definition py_floordiv :: "int \<Rightarrow> int \<Rightarrow> py_error + int" where
  "py_floordiv a b = (if b = 0 then Inl ZeroDivisionError else Inr (a div b))"

text \<open>
  \<open>{n}\<close> in an f-string, for an integer \<open>n\<close>: the conversion to decimal digits
  raises \<open>ValueError\<close> when \<open>n\<close> has more than \<open>sys.int_max_str_digits\<close> digits
  (4300 by default).
\<close>

definition int_max_str_digits :: nat where
  "int_max_str_digits = 4300"

definition format_int :: "int \<Rightarrow> py_error + unit" where
  "format_int n = (if 10 ^ int_max_str_digits \<le> \<bar>n\<bar> then Inl ValueError else Inr ())"

text \<open>A naive \<open>datetime\<close>; \<open><\<close> compares the fields lexicographically.\<close>

record datetime =
  dt_year :: int
  dt_month :: int
  dt_day :: int
  dt_hour :: int
  dt_minute :: int
  dt_second :: int
  dt_microsecond :: int

fun lex_less :: "int list \<Rightarrow> int list \<Rightarrow> bool" where
  "lex_less (x # xs) (y # ys) = (x < y \<or> (x = y \<and> lex_less xs ys))"
| "lex_less _ _ = False"

definition datetime_less :: "datetime \<Rightarrow> datetime \<Rightarrow> bool" where
  "datetime_less a b =
     lex_less
       [dt_year a, dt_month a, dt_day a, dt_hour a, dt_minute a, dt_second a, dt_microsecond a]
       [dt_year b, dt_month b, dt_day b, dt_hour b, dt_minute b, dt_second b, dt_microsecond b]"

subsection \<open>The outside world\<close>

record http_request =
  rq_method :: string
  rq_url :: string
  rq_headers :: "(string \<times> string) list"
  rq_json :: "json option"
  rq_params :: "(string \<times> json) list option"
  rq_timeout :: int

text \<open>A response: its status code and its body, \<open>None\<close> when the body is not JSON.\<close>

record response =
  status_code :: int
  body :: "json option"

datatype outcome = Raises py_error | Responds response

text \<open>The texts of the log messages, one constructor for each f-string of the source.\<close>

datatype message =
    Sending_request string string
  | Network_request_failed py_error
  | Requesting_email_with_domain string
  | Requesting_random_email
  | Email_generated json
  | API_Error json
  | Request_failed_HTTP int
  | Exception_during_registration py_error
  | No_email_address_to_poll_for
  | Polling_for_code int
  | Polling_timed_out int
  | Verification_code_found "string option"
  | Fetch_error py_error

text \<open>
  What the client does to the world, in the order it happens: a call of
  \<open>requests.request\<close>, a completed \<open>time.sleep\<close>, a call of the log callback, a
  call of \<open>extract_verification_code\<close>.
\<close>

datatype event =
    HttpCall http_request
  | Slept int
  | Logged string message
  | Extracted string

text \<open>
  The world: the trace so far, and how many random numbers have been drawn.
\<close>

record world =
  trace :: "event list"
  drawn :: nat

text \<open>
  The collaborators that are not part of the client, as parameters:
  \<^item> \<open>net\<close>: what \<open>requests.request\<close> does for a request, given everything that
    happened before;
  \<^item> \<open>randoms\<close>: the random number generator's sequence of draws;
  \<^item> \<open>strptime\<close>: \<open>datetime.strptime(s, "%Y-%m-%d %H:%M:%S")\<close>, \<open>None\<close> when it
    raises \<open>ValueError\<close>;
  \<^item> \<open>extract_verification_code\<close>: the extractor of \<open>core.mail_utils\<close>, which
    returns a code, returns nothing, or raises.
\<close>

record env =
  net :: "event list \<Rightarrow> http_request \<Rightarrow> outcome"
  randoms :: "nat \<Rightarrow> nat"
  strptime :: "string \<Rightarrow> datetime option"
  extract_verification_code :: "string \<Rightarrow> py_error + string option"

definition add_event :: "event \<Rightarrow> world \<Rightarrow> world" where
  "add_event e w = w\<lparr>trace := trace w @ [e]\<rparr>"

text \<open>
  \<open>time.sleep(seconds)\<close> with an integer length: the length is first converted to
  nanoseconds in a signed 64-bit integer, which raises \<open>OverflowError\<close> beyond
  9223372036 seconds in either direction; a negative length then raises
  \<open>ValueError\<close>.
\<close>

definition sleep :: "int \<Rightarrow> world \<Rightarrow> (py_error + unit) \<times> world" where
  "sleep seconds w =
     (if seconds < - 9223372036 \<or> 9223372036 < seconds then (Inl OverflowError, w)
      else if seconds < 0 then (Inl ValueError, w)
      else (Inr (), add_event (Slept seconds) w))"

text \<open>
  \<open>random.choices(population, k=k)\<close>: \<open>k\<close> independent picks, each at some index
  below the length of the population.
\<close>

definition choices :: "env \<Rightarrow> 'a list \<Rightarrow> nat \<Rightarrow> world \<Rightarrow> 'a list \<times> world" where
  "choices en population k w =
     (map (\<lambda>j. population ! (randoms en (drawn w + j) mod length population)) [0..<k],
      w\<lparr>drawn := drawn w + k\<rparr>)"

definition ascii_lowercase :: string where
  "ascii_lowercase = ''abcdefghijklmnopqrstuvwxyz''"

definition digits :: string where
  "digits = ''0123456789''"

subsection \<open>The client\<close>

text \<open>
  The log callback gets a level and a message; the result says whether it raises.
  The field \<open>email\<close> holds \<open>None\<close> (\<open>JNull\<close>) until a registration stores whatever
  value the provider sent as the address.
\<close>

record client =
  base_url :: string
  api_key :: string
  log_callback :: "(string \<Rightarrow> message \<Rightarrow> bool) option"
  email :: json

text \<open>
  \<open>_log\<close>: without a callback nothing happens; with one, it is called, and an
  exception it raises is swallowed.
\<close>

definition client_log :: "client \<Rightarrow> string \<Rightarrow> message \<Rightarrow> world \<Rightarrow> world" where
  "client_log c level msg w =
     (case log_callback c of
        None \<Rightarrow> w
      | Some cb \<Rightarrow>
          (let w1 = add_event (Logged level msg) w
           in if cb level msg then w1 else w1))"

text \<open>
  \<open>_request\<close>: the API key header when a key is set, the default content type, an
  info log entry, then the call; a failure of the call is logged and raised again.
\<close>

definition client_request ::
  "env \<Rightarrow> client \<Rightarrow> string \<Rightarrow> string \<Rightarrow> json option \<Rightarrow> (string \<times> json) list option \<Rightarrow> world
     \<Rightarrow> (py_error + response) \<times> world" where
  "client_request en c method url json_arg params w =
     (let headers = (if api_key c \<noteq> [] then [(''X-API-Key'', api_key c)] else [])
                      @ [(''Content-Type'', ''application/json'')];
          w1 = client_log c ''info'' (Sending_request method url) w;
          rq = \<lparr>rq_method = method, rq_url = url, rq_headers = headers,
                rq_json = json_arg, rq_params = params, rq_timeout = 15\<rparr>;
          w2 = add_event (HttpCall rq) w1
      in case net en (trace w1) rq of
           Raises e \<Rightarrow> (Inl e, client_log c ''error'' (Network_request_failed e) w2)
         | Responds res \<Rightarrow> (Inr res, w2))"

text \<open>\<open>res.json()\<close> raises when the body is not JSON.\<close>

definition res_json :: "response \<Rightarrow> py_error + json" where
  "res_json res = (case body res of None \<Rightarrow> Inl ValueError | Some data \<Rightarrow> Inr data)"

subsection \<open>\<open>register_account\<close>\<close>

text \<open>
  Lines 53 to 65, the request: a non-empty \<open>domain\<close> gives a POST with a random
  prefix of ten characters, anything else (no domain, or the empty string, which
  Python's \<open>if domain:\<close> treats alike) a GET.
\<close>

definition request_email ::
  "env \<Rightarrow> client \<Rightarrow> string \<Rightarrow> string option \<Rightarrow> world \<Rightarrow> (py_error + response) \<times> world" where
  "request_email en c url domain w =
     (case domain of
        Some d \<Rightarrow>
          if d \<noteq> [] then
            (case choices en (ascii_lowercase @ digits) 10 w of
               (prefix, w1) \<Rightarrow>
                 client_request en c ''POST'' url
                   (Some (JObj [(''prefix'', JStr prefix), (''domain'', JStr d)])) None
                   (client_log c ''info'' (Requesting_email_with_domain d) w1))
          else client_request en c ''GET'' url None None
                 (client_log c ''info'' Requesting_random_email w)
      | None \<Rightarrow>
          client_request en c ''GET'' url None None
            (client_log c ''info'' Requesting_random_email w))"

text \<open>
  The body of the \<open>try\<close> block. \<open>Inr True\<close> is \<open>return True\<close>; \<open>Inr False\<close> is
  leaving the block at its end, towards the final \<open>return False\<close>; \<open>Inl e\<close> is an
  exception raised inside the block.
\<close>

definition register_try ::
  "env \<Rightarrow> client \<Rightarrow> string \<Rightarrow> string option \<Rightarrow> world \<Rightarrow> (py_error + bool) \<times> client \<times> world" where
  "register_try en c url domain w =
     (case request_email en c url domain w of
        (Inl e, w1) \<Rightarrow> (Inl e, c, w1)
      | (Inr res, w1) \<Rightarrow>
          if status_code res = 200 then
            (case res_json res of
               Inl e \<Rightarrow> (Inl e, c, w1)
             | Inr data \<Rightarrow>
                 (case py_get data ''success'' JNull of
                    Inl e \<Rightarrow> (Inl e, c, w1)
                  | Inr flag \<Rightarrow>
                      if truthy flag then
                        (case py_subscript data ''data'' of
                           Inl e \<Rightarrow> (Inl e, c, w1)
                         | Inr d \<Rightarrow>
                             (case py_subscript d ''email'' of
                                Inl e \<Rightarrow> (Inl e, c, w1)
                              | Inr addr \<Rightarrow>
                                  (Inr True, c\<lparr>email := addr\<rparr>,
                                   client_log (c\<lparr>email := addr\<rparr>) ''info''
                                     (Email_generated addr) w1)))
                      else
                        (case py_get data ''error'' JNull of
                           Inl e \<Rightarrow> (Inl e, c, w1)
                         | Inr err \<Rightarrow>
                             (Inr False, c, client_log c ''error'' (API_Error err) w1))))
          else (Inr False, c,
                client_log c ''error'' (Request_failed_HTTP (status_code res)) w1))"

text \<open>
  The whole method: \<open>except Exception\<close> logs what the block raised, and the method
  ends in \<open>return False\<close>.
\<close>

definition register_account ::
  "env \<Rightarrow> client \<Rightarrow> string option \<Rightarrow> world \<Rightarrow> (py_error + bool) \<times> client \<times> world" where
  "register_account en c domain w =
     (case register_try en c (base_url c @ ''/api/generate-email'') domain w of
        (Inl e, c1, w1) \<Rightarrow>
          (Inr False, c1, client_log c1 ''error'' (Exception_during_registration e) w1)
      | (Inr b, c1, w1) \<Rightarrow> (Inr b, c1, w1))"

subsection \<open>\<open>_fetch_verification_code\<close>\<close>

text \<open>
  Lines 127 to 135, the stale-message filter of one message: \<open>Inr True\<close> is
  \<open>continue\<close> (the message is skipped), \<open>Inr False\<close> goes on to the content. A
  timestamp that is present but not a string makes \<open>strptime\<close> raise
  \<open>TypeError\<close>, which the \<open>except ValueError\<close> does not catch.
\<close>

definition time_filter :: "env \<Rightarrow> datetime option \<Rightarrow> json \<Rightarrow> py_error + bool" where
  "time_filter en since_time msg =
     (case since_time of
        None \<Rightarrow> Inr False
      | Some t0 \<Rightarrow>
          (case py_get msg ''created_at'' JNull of
             Inl e \<Rightarrow> Inl e
           | Inr created_at \<Rightarrow>
               if truthy created_at then
                 (case created_at of
                    JStr s \<Rightarrow>
                      (case strptime en s of
                         None \<Rightarrow> Inr False
                       | Some msg_time \<Rightarrow> Inr (datetime_less msg_time t0))
                  | _ \<Rightarrow> Inl TypeError)
               else Inr False))"

text \<open>Lines 138 to 140: the text handed to the extractor.\<close>

definition full_text :: "json \<Rightarrow> py_error + string" where
  "full_text msg =
     (case py_get msg ''content'' (JStr []) of
        Inl e \<Rightarrow> Inl e
      | Inr content \<Rightarrow>
          (case py_get msg ''html_content'' (JStr []) of
             Inl e \<Rightarrow> Inl e
           | Inr html_content \<Rightarrow> py_join content html_content))"

text \<open>\<open>if code:\<close> on what the extractor or a fetch returned.\<close>

fun truthy_code :: "string option \<Rightarrow> bool" where
  "truthy_code None = False"
| "truthy_code (Some s) = (s \<noteq> [])"

text \<open>
  The \<open>for msg in emails\<close> loop with the \<open>return None\<close> after it.
\<close>

fun scan_emails ::
  "env \<Rightarrow> client \<Rightarrow> datetime option \<Rightarrow> json list \<Rightarrow> world \<Rightarrow> (py_error + string option) \<times> world" where
  "scan_emails en c since_time [] w = (Inr None, w)"
| "scan_emails en c since_time (msg # rest) w =
     (case time_filter en since_time msg of
        Inl e \<Rightarrow> (Inl e, w)
      | Inr True \<Rightarrow> scan_emails en c since_time rest w
      | Inr False \<Rightarrow>
          (case full_text msg of
             Inl e \<Rightarrow> (Inl e, w)
           | Inr text \<Rightarrow>
               (case extract_verification_code en text of
                  Inl e \<Rightarrow> (Inl e, add_event (Extracted text) w)
                | Inr code \<Rightarrow>
                    if truthy_code code then
                      (Inr code,
                       client_log c ''info'' (Verification_code_found code)
                         (add_event (Extracted text) w))
                    else scan_emails en c since_time rest (add_event (Extracted text) w))))"

text \<open>The body of the \<open>try\<close> block of \<open>_fetch_verification_code\<close>.\<close>

definition fetch_try ::
  "env \<Rightarrow> client \<Rightarrow> datetime option \<Rightarrow> world \<Rightarrow> (py_error + string option) \<times> world" where
  "fetch_try en c since_time w =
     (case client_request en c ''GET'' (base_url c @ ''/api/emails'') None
             (Some [(''email'', email c)]) w of
        (Inl e, w1) \<Rightarrow> (Inl e, w1)
      | (Inr res, w1) \<Rightarrow>
          if status_code res \<noteq> 200 then (Inr None, w1)
          else
            (case res_json res of
               Inl e \<Rightarrow> (Inl e, w1)
             | Inr data \<Rightarrow>
                 (case py_get data ''success'' JNull of
                    Inl e \<Rightarrow> (Inl e, w1)
                  | Inr flag \<Rightarrow>
                      if \<not> truthy flag then (Inr None, w1)
                      else
                        (case py_get data ''data'' (JObj []) of
                           Inl e \<Rightarrow> (Inl e, w1)
                         | Inr d \<Rightarrow>
                             (case py_get d ''emails'' (JArr []) of
                                Inl e \<Rightarrow> (Inl e, w1)
                              | Inr emails \<Rightarrow>
                                  if \<not> truthy emails then (Inr None, w1)
                                  else
                                    (case py_iter emails of
                                       Inl e \<Rightarrow> (Inl e, w1)
                                     | Inr msgs \<Rightarrow>
                                         scan_emails en c since_time msgs w1))))))"

text \<open>The whole method: \<open>except Exception\<close> logs the error and returns \<open>None\<close>.\<close>

definition fetch_verification_code ::
  "env \<Rightarrow> client \<Rightarrow> datetime option \<Rightarrow> world \<Rightarrow> (py_error + string option) \<times> world" where
  "fetch_verification_code en c since_time w =
     (case fetch_try en c since_time w of
        (Inl e, w1) \<Rightarrow> (Inr None, client_log c ''error'' (Fetch_error e) w1)
      | (Inr code, w1) \<Rightarrow> (Inr code, w1))"

subsection \<open>\<open>poll_for_code\<close>\<close>

text \<open>
  The loop \<open>for i in range(1, max_retries + 1)\<close>, started at \<open>i = 1\<close>. The result
  \<open>Inr None\<close> is the end of the range; the loop itself only returns a truthy code.
\<close>

function poll_loop ::
  "env \<Rightarrow> client \<Rightarrow> datetime option \<Rightarrow> int \<Rightarrow> int \<Rightarrow> int \<Rightarrow> world
     \<Rightarrow> (py_error + string option) \<times> world" where
  "poll_loop en c since_time interval max_retries i w =
     (if i < max_retries + 1 then
        (case fetch_verification_code en c since_time w of
           (Inl e, w1) \<Rightarrow> (Inl e, w1)
         | (Inr code, w1) \<Rightarrow>
             if truthy_code code then (Inr code, w1)
             else if i < max_retries then
               (case sleep interval w1 of
                  (Inl e, w2) \<Rightarrow> (Inl e, w2)
                | (Inr u, w2) \<Rightarrow> poll_loop en c since_time interval max_retries (i + 1) w2)
             else poll_loop en c since_time interval max_retries (i + 1) w1)
      else (Inr None, w))"
  by pat_completeness auto
termination
  by (relation "measure (\<lambda>(en, c, since_time, interval, max_retries, i, w). nat (max_retries + 1 - i))")
    auto

declare poll_loop.simps [simp del]

text \<open>
  The method. The two log lines that show the timeout are f-strings, formatted before
  \<open>_log\<close> is called and outside any handler.
\<close>

definition poll_for_code ::
  "env \<Rightarrow> client \<Rightarrow> int \<Rightarrow> int \<Rightarrow> datetime option \<Rightarrow> world \<Rightarrow> (py_error + string option) \<times> world" where
  "poll_for_code en c timeout interval since_time w =
     (if \<not> truthy (email c) then
        (Inr None, client_log c ''error'' No_email_address_to_poll_for w)
      else
        (case py_floordiv timeout interval of
           Inl e \<Rightarrow> (Inl e, w)
         | Inr max_retries \<Rightarrow>
             (case format_int timeout of
                Inl e \<Rightarrow> (Inl e, w)
              | Inr u \<Rightarrow>
                  (case poll_loop en c since_time interval max_retries 1
                          (client_log c ''info'' (Polling_for_code timeout) w) of
                     (Inl e, w2) \<Rightarrow> (Inl e, w2)
                   | (Inr (Some code), w2) \<Rightarrow> (Inr (Some code), w2)
                   | (Inr None, w2) \<Rightarrow>
                       (case format_int timeout of
                          Inl e \<Rightarrow> (Inl e, w2)
                        | Inr u \<Rightarrow>
                            (Inr None,
                             client_log c ''error'' (Polling_timed_out timeout) w2))))))"

section \<open>Observing what the client did\<close>

text \<open>
  The HTTP calls recorded in a trace, in order.
\<close>

fun http_calls :: "event list \<Rightarrow> http_request list" where
  "http_calls [] = []"
| "http_calls (HttpCall rq # es) = rq # http_calls es"
| "http_calls (e # es) = http_calls es"

text \<open>
  The events that reach the network or pass time: HTTP calls and sleeps. Log entries
  and extractor calls are left out.
\<close>

fun is_io :: "event \<Rightarrow> bool" where
  "is_io (HttpCall rq) = True"
| "is_io (Slept n) = True"
| "is_io e = False"

definition io_events :: "event list \<Rightarrow> event list" where
  "io_events tr = filter is_io tr"

text \<open>
  \<open>extends w w'\<close>: the world \<open>w'\<close> is \<open>w\<close> with further events appended.
\<close>

definition extends :: "world \<Rightarrow> world \<Rightarrow> bool" where
  "extends w w' = (\<exists>new. trace w' = trace w @ new)"

text \<open>
  The one request that \<open>_fetch_verification_code\<close> sends for a client, and the requests
  that \<open>register_account\<close> sends, as \<open>_request\<close> builds them.
\<close>

definition emails_request :: "client \<Rightarrow> http_request" where
  "emails_request c =
     \<lparr>rq_method = ''GET'', rq_url = base_url c @ ''/api/emails'',
      rq_headers = (if api_key c \<noteq> [] then [(''X-API-Key'', api_key c)] else [])
                     @ [(''Content-Type'', ''application/json'')],
      rq_json = None, rq_params = Some [(''email'', email c)], rq_timeout = 15\<rparr>"

definition generate_request :: "client \<Rightarrow> string \<Rightarrow> json option \<Rightarrow> http_request" where
  "generate_request c method payload =
     \<lparr>rq_method = method, rq_url = base_url c @ ''/api/generate-email'',
      rq_headers = (if api_key c \<noteq> [] then [(''X-API-Key'', api_key c)] else [])
                     @ [(''Content-Type'', ''application/json'')],
      rq_json = payload, rq_params = None, rq_timeout = 15\<rparr>"

text \<open>
  The network and sleep events of a polling run in which no attempt finds a code:
  \<open>n\<close> attempts, with a sleep after each attempt but the last.
\<close>

fun polling_schedule :: "http_request \<Rightarrow> int \<Rightarrow> nat \<Rightarrow> event list" where
  "polling_schedule rq interval 0 = []"
| "polling_schedule rq interval (Suc 0) = [HttpCall rq]"
| "polling_schedule rq interval (Suc (Suc n)) =
     HttpCall rq # Slept interval # polling_schedule rq interval (Suc n)"

text \<open>
  The provider's answer to a registration counts as a success when the call returned,
  the status is 200, and the body is a JSON object whose \<open>success\<close> entry is truthy.
\<close>

definition success_flag :: "response \<Rightarrow> bool" where
  "success_flag res =
     (case res_json res of
        Inl e \<Rightarrow> False
      | Inr data \<Rightarrow>
          (case py_get data ''success'' JNull of Inl e \<Rightarrow> False | Inr flag \<Rightarrow> truthy flag))"

fun provider_success :: "py_error + response \<Rightarrow> bool" where
  "provider_success (Inl e) = False"
| "provider_success (Inr res) = (status_code res = 200 \<and> success_flag res)"

section \<open>Example inputs\<close>

text \<open>
  Concrete collaborators and clients on which the theorems below are evaluated: a
  network that is down, a provider that answers 503, a clock format parser that knows one
  timestamp, an extractor that always finds the code \<open>123456\<close>.
\<close>

definition offline_env :: env where
  "offline_env =
     \<lparr>net = (\<lambda>tr rq. Raises RequestException),
      randoms = (\<lambda>j. j),
      strptime = (\<lambda>s. None),
      extract_verification_code = (\<lambda>text. Inr None)\<rparr>"

definition failing_env :: env where
  "failing_env =
     \<lparr>net = (\<lambda>tr rq. Responds \<lparr>status_code = 503, body = None\<rparr>),
      randoms = (\<lambda>j. j),
      strptime = (\<lambda>s. None),
      extract_verification_code = (\<lambda>text. Inr None)\<rparr>"

definition demo_strptime :: "string \<Rightarrow> datetime option" where
  "demo_strptime s =
     (if s = ''2025-11-14 10:30:00''
      then Some \<lparr>dt_year = 2025, dt_month = 11, dt_day = 14, dt_hour = 10, dt_minute = 30,
                 dt_second = 0, dt_microsecond = 0\<rparr>
      else None)"

definition demo_env :: env where
  "demo_env =
     \<lparr>net = (\<lambda>tr rq. Raises RequestException),
      randoms = (\<lambda>j. j),
      strptime = demo_strptime,
      extract_verification_code = (\<lambda>text. Inr (Some ''123456''))\<rparr>"

definition demo_since :: datetime where
  "demo_since =
     \<lparr>dt_year = 2025, dt_month = 11, dt_day = 14, dt_hour = 10, dt_minute = 31,
      dt_second = 0, dt_microsecond = 0\<rparr>"

definition registered_client :: client where
  "registered_client =
     \<lparr>base_url = ''https://mail.chatgpt.org.uk'', api_key = [],
      log_callback = Some (\<lambda>level msg. False), email = JStr ''box@example.org''\<rparr>"

definition fresh_client :: client where
  "fresh_client =
     \<lparr>base_url = ''https://mail.chatgpt.org.uk'', api_key = [],
      log_callback = Some (\<lambda>level msg. False), email = JNull\<rparr>"

definition empty_world :: world where
  "empty_world = \<lparr>trace = [], drawn = 0\<rparr>"

definition stale_msg :: json where
  "stale_msg =
     JObj [(''content'', JStr ''Your code is 123456''), (''html_content'', JStr []),
           (''created_at'', JStr ''2025-11-14 10:30:00'')]"

definition odd_msg :: json where
  "odd_msg =
     JObj [(''content'', JStr ''Your code is 123456''), (''html_content'', JStr []),
           (''created_at'', JStr ''yesterday'')]"

definition bare_msg :: json where
  "bare_msg = JObj [(''content'', JStr ''Your code is 123456''), (''html_content'', JStr [])]"

section \<open>Properties\<close>

subsection \<open>Traces only grow, and logging touches neither network nor clock\<close>

lemma trace_add_event [simp]: "trace (add_event e w) = trace w @ [e]"
  by (simp add: add_event_def)

lemma drawn_add_event [simp]: "drawn (add_event e w) = drawn w"
  by (simp add: add_event_def)

lemma client_log_eq:
  "client_log c level msg w =
     (case log_callback c of None \<Rightarrow> w | Some cb \<Rightarrow> add_event (Logged level msg) w)"
  by (simp add: client_log_def Let_def split: option.splits)

lemma trace_client_log_Some:
  "log_callback c \<noteq> None \<Longrightarrow> trace (client_log c level msg w) = trace w @ [Logged level msg]"
  by (auto simp: client_log_eq)

lemma drawn_client_log [simp]: "drawn (client_log c level msg w) = drawn w"
  by (simp add: client_log_eq split: option.splits)

lemma io_events_append [simp]: "io_events (xs @ ys) = io_events xs @ io_events ys"
  by (simp add: io_events_def)

lemma io_events_Nil [simp]: "io_events [] = []"
  by (simp add: io_events_def)

lemma io_events_Cons [simp]: "io_events (e # es) = (if is_io e then e # io_events es else io_events es)"
  by (simp add: io_events_def)

lemma io_events_client_log [simp]:
  "io_events (trace (client_log c level msg w)) = io_events (trace w)"
  by (simp add: client_log_eq split: option.splits)

lemma http_calls_append [simp]: "http_calls (xs @ ys) = http_calls xs @ http_calls ys"
  by (induction xs rule: http_calls.induct) simp_all

lemma http_calls_io_events [simp]: "http_calls (io_events tr) = http_calls tr"
  by (induction tr rule: http_calls.induct) simp_all

lemma http_calls_client_log [simp]:
  "http_calls (trace (client_log c level msg w)) = http_calls (trace w)"
  by (simp add: client_log_eq split: option.splits)

lemma http_calls_polling_schedule [simp]:
  "http_calls (polling_schedule rq interval n) = replicate n rq"
  by (induction rq interval n rule: polling_schedule.induct) simp_all

lemma polling_schedule_Suc:
  "polling_schedule rq interval (Suc n) =
     HttpCall rq # (if n = 0 then [] else Slept interval # polling_schedule rq interval n)"
  by (cases n) simp_all

lemma extends_refl [simp]: "extends w w"
  by (simp add: extends_def)

lemma extends_trans: "extends a b \<Longrightarrow> extends b c \<Longrightarrow> extends a c"
  by (auto simp: extends_def)

lemma extends_add_event [simp]: "extends w (add_event e w)"
  by (simp add: extends_def)

lemma extends_client_log [simp]: "extends w (client_log c level msg w)"
  by (simp add: client_log_eq split: option.splits)

subsection \<open>One request per call of \<open>_request\<close>\<close>

lemma client_request_io:
  "io_events (trace (snd (client_request en c method url json_arg params w))) =
     io_events (trace w) @
       [HttpCall \<lparr>rq_method = method, rq_url = url,
          rq_headers = (if api_key c \<noteq> [] then [(''X-API-Key'', api_key c)] else [])
                     @ [(''Content-Type'', ''application/json'')],
          rq_json = json_arg, rq_params = params, rq_timeout = 15\<rparr>]"
  by (simp add: client_request_def Let_def split: outcome.splits)

lemma client_request_calls:
  "http_calls (trace (snd (client_request en c method url json_arg params w))) =
     http_calls (trace w) @
       [\<lparr>rq_method = method, rq_url = url,
          rq_headers = (if api_key c \<noteq> [] then [(''X-API-Key'', api_key c)] else [])
                     @ [(''Content-Type'', ''application/json'')],
          rq_json = json_arg, rq_params = params, rq_timeout = 15\<rparr>]"
  by (simp add: client_request_def Let_def split: outcome.splits)

lemma client_request_extends:
  "extends w (snd (client_request en c method url json_arg params w))"
proof -
  have a: "extends w (add_event e (client_log c l m w))" for e l m
    by (rule extends_trans [OF extends_client_log extends_add_event])
  have b: "extends w (client_log c l' m' (add_event e (client_log c l m w)))" for e l m l' m'
    by (rule extends_trans [OF a extends_client_log])
  show ?thesis
    by (simp add: client_request_def Let_def a b split: outcome.splits)
qed

lemma drawn_client_request [simp]:
  "drawn (snd (client_request en c method url json_arg params w)) = drawn w"
  by (simp add: client_request_def Let_def split: outcome.splits)

subsection \<open>Scanning and fetching\<close>

lemma scan_emails_io:
  "io_events (trace (snd (scan_emails en c since_time msgs w))) = io_events (trace w)"
  by (induction msgs arbitrary: w) (simp_all split: sum.splits bool.splits)

lemma scan_emails_extends:
  "extends w (snd (scan_emails en c since_time msgs w))"
proof (induction msgs arbitrary: w)
  case Nil
  then show ?case by simp
next
  case (Cons msg rest)
  have a: "extends w (snd (scan_emails en c since_time rest (add_event e w)))" for e
    by (rule extends_trans [OF extends_add_event Cons.IH])
  have b: "extends w (client_log c l m (add_event e w))" for l m e
    by (rule extends_trans [OF extends_add_event extends_client_log])
  show ?case
    by (simp add: Cons.IH a b split: sum.splits bool.splits)
qed

lemma scan_emails_scanned:
  assumes tf: "time_filter en since_time msg = Inr False"
    and ft: "full_text msg = Inr text"
  shows "(\<exists>new. trace (snd (scan_emails en c since_time (msg # rest) w)) =
                  trace w @ Extracted text # new) \<and>
         (\<forall>code. extract_verification_code en text = Inr (Some code) \<and> code \<noteq> [] \<longrightarrow>
                  fst (scan_emails en c since_time (msg # rest) w) = Inr (Some code))"
proof -
  let ?w1 = "add_event (Extracted text) w"
  have ext: "\<exists>new. trace w' = trace w @ Extracted text # new" if "extends ?w1 w'" for w'
    using that by (auto simp: extends_def)
  have a: "\<exists>new. trace ?w1 = trace w @ Extracted text # new"
    by (rule ext) simp
  have b: "\<exists>new. trace (client_log c l m ?w1) = trace w @ Extracted text # new" for l m
    by (rule ext) simp
  have d: "\<exists>new. trace (snd (scan_emails en c since_time rest ?w1)) = trace w @ Extracted text # new"
    by (rule ext) (rule scan_emails_extends)
  show ?thesis
    using a b d by (simp add: tf ft split: sum.splits)
qed

lemma time_filter_stale:
  assumes "py_get msg ''created_at'' JNull = Inr (JStr s)" and "s \<noteq> []"
    and "strptime en s = Some t" and "datetime_less t t0"
  shows "time_filter en (Some t0) msg = Inr True"
  using assms by (simp add: time_filter_def)

lemma time_filter_unparsable:
  assumes "py_get msg ''created_at'' JNull = Inr (JStr s)" and "strptime en s = None"
  shows "time_filter en (Some t0) msg = Inr False"
  using assms by (simp add: time_filter_def)

lemma time_filter_absent:
  assumes "map_of kvs ''created_at'' = None"
  shows "time_filter en since_time (JObj kvs) = Inr False"
  using assms by (simp add: time_filter_def split: option.splits)

lemma fetch_try_io:
  "io_events (trace (snd (fetch_try en c since_time w))) =
     io_events (trace w) @ [HttpCall (emails_request c)]"
proof -
  obtain r w1 where rq: "client_request en c ''GET'' (base_url c @ ''/api/emails'') None
             (Some [(''email'', email c)]) w = (r, w1)"
    by (cases "client_request en c ''GET'' (base_url c @ ''/api/emails'') None
             (Some [(''email'', email c)]) w")
  have io: "io_events (trace w1) = io_events (trace w) @ [HttpCall (emails_request c)]"
    using client_request_io [of en c "''GET''" "base_url c @ ''/api/emails''" None
        "Some [(''email'', email c)]" w]
    by (simp add: rq emails_request_def)
  show ?thesis
    by (simp add: fetch_try_def rq io scan_emails_io split: sum.splits)
qed

lemma fetch_try_extends: "extends w (snd (fetch_try en c since_time w))"
proof -
  obtain r w1 where rq: "client_request en c ''GET'' (base_url c @ ''/api/emails'') None
             (Some [(''email'', email c)]) w = (r, w1)"
    by (cases "client_request en c ''GET'' (base_url c @ ''/api/emails'') None
             (Some [(''email'', email c)]) w")
  have e1: "extends w w1"
    using client_request_extends [of w en c "''GET''" "base_url c @ ''/api/emails''" None
        "Some [(''email'', email c)]"]
    by (simp add: rq)
  have e2: "extends w (snd (scan_emails en c since_time msgs w1))" for msgs
    by (rule extends_trans [OF e1 scan_emails_extends])
  show ?thesis
    by (simp add: fetch_try_def rq e1 e2 split: sum.splits)
qed

lemma fetch_verification_code_returns:
  "\<exists>code. fst (fetch_verification_code en c since_time w) = Inr code"
  by (cases "fetch_try en c since_time w")
     (simp add: fetch_verification_code_def split: sum.splits)

lemma fetch_verification_code_io:
  "io_events (trace (snd (fetch_verification_code en c since_time w))) =
     io_events (trace w) @ [HttpCall (emails_request c)]"
  using fetch_try_io [of en c since_time w]
  by (cases "fetch_try en c since_time w")
     (simp add: fetch_verification_code_def split: sum.splits)

lemma fetch_verification_code_extends:
  "extends w (snd (fetch_verification_code en c since_time w))"
proof (cases "fetch_try en c since_time w")
  case (Pair r w1)
  have e1: "extends w w1"
    using fetch_try_extends [of w en c since_time] by (simp add: Pair)
  have e2: "extends w (client_log c l m w1)" for l m
    by (rule extends_trans [OF e1 extends_client_log])
  show ?thesis
    by (simp add: fetch_verification_code_def Pair e1 e2 split: sum.splits)
qed

lemma offline_never:
  "fst (fetch_verification_code offline_env c since_time w) = Inr None"
  by (simp add: fetch_verification_code_def fetch_try_def client_request_def offline_env_def Let_def)

subsection \<open>The polling loop\<close>

lemma sleep_ok:
  "0 \<le> seconds \<Longrightarrow> seconds \<le> 9223372036 \<Longrightarrow>
     sleep seconds w = (Inr (), add_event (Slept seconds) w)"
  by (simp add: sleep_def)

lemma sleep_cases:
  "(\<exists>e. sleep seconds w = (Inl e, w)) \<or> sleep seconds w = (Inr (), add_event (Slept seconds) w)"
  by (simp add: sleep_def)

lemma format_int_ok:
  assumes "\<bar>n\<bar> < 10 ^ k" and "k \<le> 4300"
  shows "format_int n = Inr ()"
proof -
  have "(10::int) ^ k \<le> 10 ^ int_max_str_digits"
    unfolding int_max_str_digits_def using assms(2) by (intro power_increasing) simp_all
  with assms(1) have "\<not> 10 ^ int_max_str_digits \<le> \<bar>n\<bar>"
    by linarith
  then show ?thesis
    by (simp only: format_int_def if_False)
qed

lemma format_int_fails:
  assumes "10 ^ int_max_str_digits \<le> \<bar>n\<bar>"
  shows "format_int n = Inl ValueError"
  using assms by (simp only: format_int_def if_True)

lemma format_int_cases: "format_int n = Inl ValueError \<or> format_int n = Inr ()"
  by (simp only: format_int_def split: if_splits) blast

lemma below_limit:
  assumes "\<bar>n::int\<bar> < 10 ^ k" and "k \<le> 4300"
  shows "\<bar>n\<bar> < 10 ^ int_max_str_digits"
proof -
  have "(10::int) ^ k \<le> 10 ^ int_max_str_digits"
    unfolding int_max_str_digits_def using assms(2) by (intro power_increasing) simp_all
  with assms(1) show ?thesis by linarith
qed

lemma format_int_iff: "format_int n = Inr () \<longleftrightarrow> \<bar>n\<bar> < 10 ^ int_max_str_digits"
  unfolding format_int_def by (cases "10 ^ int_max_str_digits \<le> \<bar>n\<bar>") (simp_all only: if_True if_False sum.distinct simp_thms not_le [symmetric])

lemma poll_loop_no_code:
  assumes never: "\<forall>w'. fst (fetch_verification_code en c since_time w') = Inr None"
    and nonneg: "0 \<le> interval"
    and bound: "interval \<le> 9223372036"
  shows "fst (poll_loop en c since_time interval max_retries i w) = Inr None"
  using assms
proof (induction en c since_time interval max_retries i w rule: poll_loop.induct)
  case (1 en c since_time interval max_retries i w)
  note never = "1.prems"(1) and nonneg = "1.prems"(2) and bound = "1.prems"(3)
  show ?case
  proof (cases "i < max_retries + 1")
    case False
    then show ?thesis by (simp add: poll_loop.simps)
  next
    case True
    obtain w1 where f: "fetch_verification_code en c since_time w = (Inr None, w1)"
      using never [rule_format, of w]
      by (cases "fetch_verification_code en c since_time w") simp
    show ?thesis
    proof (cases "i < max_retries")
      case True
      have sl: "sleep interval w1 = (Inr (), add_event (Slept interval) w1)"
        by (rule sleep_ok [OF nonneg bound])
      have step: "poll_loop en c since_time interval max_retries i w =
                  poll_loop en c since_time interval max_retries (i + 1)
                    (add_event (Slept interval) w1)"
        using True by (subst poll_loop.simps) (simp add: f sl)
      show ?thesis
        unfolding step
        using "1.IH"(1) [OF \<open>i < max_retries + 1\<close> f [symmetric] refl _ True sl [symmetric] refl]
          never nonneg bound
        by simp
    next
      case False
      with True have eq: "i = max_retries" by simp
      have step: "poll_loop en c since_time interval max_retries i w =
                  poll_loop en c since_time interval max_retries (i + 1) w1"
        using True False by (subst poll_loop.simps) (simp add: f)
      have fin: "poll_loop en c since_time interval max_retries (i + 1) w1 = (Inr None, w1)"
        using eq by (subst poll_loop.simps) simp
      show ?thesis
        unfolding step fin by simp
    qed
  qed
qed

lemma poll_loop_returns:
  assumes nonneg: "0 \<le> interval"
    and bound: "interval \<le> 9223372036"
  shows "(\<exists>r. fst (poll_loop en c since_time interval max_retries i w) = Inr r) \<and>
         extends w (snd (poll_loop en c since_time interval max_retries i w))"
  using assms
proof (induction en c since_time interval max_retries i w rule: poll_loop.induct)
  case (1 en c since_time interval max_retries i w)
  note nonneg = "1.prems"(1) and bound = "1.prems"(2)
  show ?case
  proof (cases "i < max_retries + 1")
    case False
    then show ?thesis by (simp add: poll_loop.simps)
  next
    case True
    obtain code w1 where f: "fetch_verification_code en c since_time w = (Inr code, w1)"
      using fetch_verification_code_returns [of en c since_time w]
      by (cases "fetch_verification_code en c since_time w") auto
    have e1: "extends w w1"
      using fetch_verification_code_extends [of w en c since_time] by (simp add: f)
    show ?thesis
    proof (cases "truthy_code code")
      case yes: True
      then have "poll_loop en c since_time interval max_retries i w = (Inr code, w1)"
        using True by (subst poll_loop.simps) (simp add: f)
      then show ?thesis using e1 by simp
    next
      case no: False
      show ?thesis
      proof (cases "i < max_retries")
        case lt: True
        have sl: "sleep interval w1 = (Inr (), add_event (Slept interval) w1)"
          by (rule sleep_ok [OF nonneg bound])
        have step: "poll_loop en c since_time interval max_retries i w =
                  poll_loop en c since_time interval max_retries (i + 1)
                    (add_event (Slept interval) w1)"
          using True lt no by (subst poll_loop.simps) (simp add: f sl)
        have e2: "extends w (add_event (Slept interval) w1)"
          by (rule extends_trans [OF e1 extends_add_event])
        show ?thesis
          unfolding step
          using "1.IH"(1) [OF True f [symmetric] refl no lt sl [symmetric] refl nonneg bound]
            extends_trans [OF e2]
          by blast
      next
        case ge: False
        have step: "poll_loop en c since_time interval max_retries i w =
                  poll_loop en c since_time interval max_retries (i + 1) w1"
          using True ge no by (subst poll_loop.simps) (simp add: f)
        show ?thesis
          unfolding step
          using "1.IH"(2) [OF True f [symmetric] refl no ge nonneg bound] extends_trans [OF e1]
          by blast
      qed
    qed
  qed
qed

lemma poll_loop_schedule:
  "\<exists>k. k \<le> nat (max_retries + 1 - i) \<and> (i \<le> max_retries \<longrightarrow> 0 < k) \<and>
       io_events (trace (snd (poll_loop en c since_time interval max_retries i w))) =
         io_events (trace w) @ polling_schedule (emails_request c) interval k \<and>
       (fst (poll_loop en c since_time interval max_retries i w) = Inr None \<longrightarrow>
          k = nat (max_retries + 1 - i))"
proof (induction en c since_time interval max_retries i w rule: poll_loop.induct)
  case (1 en c since_time interval max_retries i w)
  let ?rq = "emails_request c"
  show ?case
  proof (cases "i < max_retries + 1")
    case False
    then show ?thesis by (simp add: poll_loop.simps)
  next
    case True
    obtain code w1 where f: "fetch_verification_code en c since_time w = (Inr code, w1)"
      using fetch_verification_code_returns [of en c since_time w]
      by (cases "fetch_verification_code en c since_time w") auto
    have io1: "io_events (trace w1) = io_events (trace w) @ [HttpCall ?rq]"
      using fetch_verification_code_io [of en c since_time w] by (simp add: f)
    have one: "Suc 0 \<le> nat (max_retries + 1 - i)"
      using True by simp
    show ?thesis
    proof (cases "truthy_code code")
      case yes: True
      then have res: "poll_loop en c since_time interval max_retries i w = (Inr code, w1)"
        using True by (subst poll_loop.simps) (simp add: f)
      have "code \<noteq> None" using yes by (cases code) simp_all
      then show ?thesis
        using one by (intro exI [of _ "Suc 0"]) (auto simp: res io1)
    next
      case no: False
      show ?thesis
      proof (cases "i < max_retries")
        case lt: True
        from sleep_cases [of interval w1] show ?thesis
        proof
          assume "\<exists>e. sleep interval w1 = (Inl e, w1)"
          then obtain e where sl: "sleep interval w1 = (Inl e, w1)" by blast
          have res: "poll_loop en c since_time interval max_retries i w = (Inl e, w1)"
            using True lt no by (subst poll_loop.simps) (simp add: f sl)
          show ?thesis
            using one by (intro exI [of _ "Suc 0"]) (auto simp: res io1)
        next
          assume sl: "sleep interval w1 = (Inr (), add_event (Slept interval) w1)"
          have step: "poll_loop en c since_time interval max_retries i w =
                    poll_loop en c since_time interval max_retries (i + 1)
                      (add_event (Slept interval) w1)"
            using True lt no by (subst poll_loop.simps) (simp add: f sl)
          obtain k where k: "k \<le> nat (max_retries + 1 - (i + 1))" "0 < k"
            and io: "io_events (trace (snd (poll_loop en c since_time interval max_retries (i + 1)
                         (add_event (Slept interval) w1)))) =
                    io_events (trace (add_event (Slept interval) w1)) @
                      polling_schedule ?rq interval k"
            and full: "fst (poll_loop en c since_time interval max_retries (i + 1)
                         (add_event (Slept interval) w1)) = Inr None \<longrightarrow>
                       k = nat (max_retries + 1 - (i + 1))"
            using "1.IH"(1) [OF True f [symmetric] refl no lt sl [symmetric] refl] lt
            by auto
          have n: "nat (max_retries + 1 - i) = Suc (nat (max_retries + 1 - (i + 1)))"
            using lt by simp
          show ?thesis
            unfolding step
            using k io full n
            by (intro exI [of _ "Suc k"]) (simp add: io1 polling_schedule_Suc)
        qed
      next
        case ge: False
        with True have eq: "i = max_retries" by simp
        have step: "poll_loop en c since_time interval max_retries i w =
                  poll_loop en c since_time interval max_retries (i + 1) w1"
          using True ge no by (subst poll_loop.simps) (simp add: f)
        have fin: "poll_loop en c since_time interval max_retries (i + 1) w1 = (Inr None, w1)"
          using eq by (subst poll_loop.simps) simp
        show ?thesis
          unfolding step fin using eq
          by (intro exI [of _ "Suc 0"]) (simp add: io1)
      qed
    qed
  qed
qed

text \<open>
  \<open>poll_for_code\<close> for a registered mailbox and a non-zero interval: the second
  formatting of the timeout cannot fail once the first has succeeded.
\<close>

lemma poll_for_code_registered:
  assumes reg: "truthy (email c)"
    and nz: "interval \<noteq> 0"
  shows "poll_for_code en c timeout interval since_time w =
           (case format_int timeout of
              Inl e \<Rightarrow> (Inl e, w)
            | Inr u \<Rightarrow>
                (case poll_loop en c since_time interval (timeout div interval) 1
                        (client_log c ''info'' (Polling_for_code timeout) w) of
                   (Inl e, w2) \<Rightarrow> (Inl e, w2)
                 | (Inr (Some code), w2) \<Rightarrow> (Inr (Some code), w2)
                 | (Inr None, w2) \<Rightarrow>
                     (Inr None, client_log c ''error'' (Polling_timed_out timeout) w2)))"
  using reg nz format_int_cases [of timeout]
  by (auto simp: poll_for_code_def py_floordiv_def split: prod.splits sum.splits option.splits)

lemma poll_for_code_schedule:
  assumes reg: "truthy (email c)"
    and pos: "0 < interval"
  shows "\<exists>k. k \<le> nat (timeout div interval) \<and>
           io_events (trace (snd (poll_for_code en c timeout interval since_time w))) =
             io_events (trace w) @ polling_schedule (emails_request c) interval k \<and>
           (fst (poll_for_code en c timeout interval since_time w) = Inr None \<longrightarrow>
              k = nat (timeout div interval))"
proof -
  let ?w0 = "client_log c ''info'' (Polling_for_code timeout) w"
  let ?loop = "poll_loop en c since_time interval (timeout div interval) 1 ?w0"
  from pos have nz: "interval \<noteq> 0" by simp
  note p = poll_for_code_registered [OF reg nz, of en timeout since_time w]
  from format_int_cases [of timeout] show ?thesis
  proof
    assume "format_int timeout = Inl ValueError"
    then show ?thesis
      by (intro exI [of _ 0]) (simp add: p)
  next
    assume fm: "format_int timeout = Inr ()"
    obtain r w2 where l: "?loop = (r, w2)"
      by (cases ?loop)
    obtain k where k: "k \<le> nat (timeout div interval)"
      and io: "io_events (trace w2) =
                 io_events (trace w) @ polling_schedule (emails_request c) interval k"
      and full: "r = Inr None \<longrightarrow> k = nat (timeout div interval)"
      using poll_loop_schedule [of "timeout div interval" 1 en c since_time interval ?w0]
      by (auto simp: l)
    show ?thesis
      using k io full
      by (intro exI [of _ k]) (simp add: p fm l split: sum.splits option.splits)
  qed
qed

lemma poll_for_code_no_code:
  assumes reg: "truthy (email c)"
    and pos: "0 < interval"
    and bound: "interval \<le> 9223372036"
    and fm: "format_int timeout = Inr ()"
    and never: "\<forall>w'. fst (fetch_verification_code en c since_time w') = Inr None"
  shows "fst (poll_for_code en c timeout interval since_time w) = Inr None"
proof -
  let ?w0 = "client_log c ''info'' (Polling_for_code timeout) w"
  let ?loop = "poll_loop en c since_time interval (timeout div interval) 1 ?w0"
  from pos have nonneg: "0 \<le> interval" and nz: "interval \<noteq> 0" by simp_all
  obtain w2 where l: "?loop = (Inr None, w2)"
    using poll_loop_no_code [OF never nonneg bound, of "timeout div interval" 1 ?w0]
    by (cases ?loop) simp
  show ?thesis
    by (simp add: poll_for_code_registered [OF reg nz] fm l)
qed

lemma poll_for_code_total:
  assumes pos: "0 < interval"
    and bound: "interval \<le> 9223372036"
    and fm: "format_int timeout = Inr ()"
  shows "\<exists>r. fst (poll_for_code en c timeout interval since_time w) = Inr r"
    and "fst (poll_for_code en c timeout interval since_time w) = Inr None \<Longrightarrow>
           log_callback c \<noteq> None \<Longrightarrow>
           \<exists>new m. trace (snd (poll_for_code en c timeout interval since_time w)) =
                 trace w @ new @ [Logged ''error'' m]"
proof -
  let ?w0 = "client_log c ''info'' (Polling_for_code timeout) w"
  let ?loop = "poll_loop en c since_time interval (timeout div interval) 1 ?w0"
  from pos have nonneg: "0 \<le> interval" and nz: "interval \<noteq> 0" by simp_all
  obtain r w2 where l: "?loop = (Inr r, w2)"
    using poll_loop_returns [OF nonneg bound, of en c since_time "timeout div interval" 1 ?w0]
    by (cases ?loop) auto
  have ext: "extends ?w0 w2"
    using poll_loop_returns [OF nonneg bound, of en c since_time "timeout div interval" 1 ?w0]
    by (simp add: l)
  have "extends w w2"
    by (rule extends_trans [OF extends_client_log ext])
  then obtain new where new: "trace w2 = trace w @ new"
    by (auto simp: extends_def)
  have p: "poll_for_code en c timeout interval since_time w =
             (if \<not> truthy (email c)
              then (Inr None, client_log c ''error'' No_email_address_to_poll_for w)
              else case r of
                     Some code \<Rightarrow> (Inr (Some code), w2)
                   | None \<Rightarrow> (Inr None, client_log c ''error'' (Polling_timed_out timeout) w2))"
    using nz by (simp add: poll_for_code_def py_floordiv_def fm l split: option.splits)
  show "\<exists>r. fst (poll_for_code en c timeout interval since_time w) = Inr r"
    by (simp add: p split: option.splits)
  assume none: "fst (poll_for_code en c timeout interval since_time w) = Inr None"
    and cb: "log_callback c \<noteq> None"
  show "\<exists>new m. trace (snd (poll_for_code en c timeout interval since_time w)) =
                 trace w @ new @ [Logged ''error'' m]"
  proof (cases "truthy (email c)")
    case False
    then have "trace (snd (poll_for_code en c timeout interval since_time w)) =
                 trace w @ [] @ [Logged ''error'' No_email_address_to_poll_for]"
      by (simp add: p trace_client_log_Some [OF cb])
    then show ?thesis by blast
  next
    case True
    with none have "r = None"
      by (simp add: p split: option.splits)
    then have "trace (snd (poll_for_code en c timeout interval since_time w)) =
                 trace w @ new @ [Logged ''error'' (Polling_timed_out timeout)]"
      using True by (simp add: p trace_client_log_Some [OF cb] new)
    then show ?thesis by blast
  qed
qed

lemma zero_attempts:
  assumes "0 < interval" and "timeout < interval"
  shows "timeout div interval < (1::int)"
proof (cases "0 \<le> timeout")
  case True
  then have "timeout div interval = 0"
    using assms by (simp add: div_pos_pos_trivial)
  then show ?thesis by simp
next
  case False
  then have "timeout div interval < 0"
    using assms by (simp add: div_neg_pos_less0)
  then show ?thesis by simp
qed

subsection \<open>Registration\<close>

lemma request_email_extends: "extends w (snd (request_email en c url domain w))"
proof -
  have a: "extends w (snd (client_request en c m url j p (client_log c l msg w)))" for m j p l msg
    by (rule extends_trans [OF extends_client_log client_request_extends])
  have "extends w (w\<lparr>drawn := k\<rparr>)" for k
    by (simp add: extends_def)
  then have b: "extends w (snd (client_request en c m url j p (client_log c l msg (w\<lparr>drawn := k\<rparr>))))"
    for m j p l msg k
    by (rule extends_trans [OF _ extends_trans [OF extends_client_log client_request_extends]])
  show ?thesis
    by (simp add: request_email_def choices_def a b split: option.splits)
qed

lemma register_try_cases:
  assumes rq: "request_email en c url domain w = (r, w1)"
  shows "(\<exists>e. register_try en c url domain w = (Inl e, c, w1)) \<or>
         (\<exists>m. register_try en c url domain w = (Inr False, c, client_log c ''error'' m w1)) \<or>
         (provider_success r \<and>
          (\<exists>addr. register_try en c url domain w =
             (Inr True, c\<lparr>email := addr\<rparr>,
              client_log (c\<lparr>email := addr\<rparr>) ''info'' (Email_generated addr) w1)))"
proof (cases r)
  case (Inl e)
  then show ?thesis by (simp add: register_try_def rq)
next
  case (Inr res)
  show ?thesis
  proof (cases "status_code res = 200")
    case False
    then show ?thesis by (auto simp: register_try_def rq Inr)
  next
    case True
    then show ?thesis
      by (auto simp: register_try_def rq Inr success_flag_def split: sum.splits)
  qed
qed

lemma register_account_cases:
  assumes rq: "request_email en c (base_url c @ ''/api/generate-email'') domain w = (r, w1)"
  shows "(\<exists>m. register_account en c domain w = (Inr False, c, client_log c ''error'' m w1)) \<or>
         (provider_success r \<and>
          (\<exists>addr. register_account en c domain w =
             (Inr True, c\<lparr>email := addr\<rparr>,
              client_log (c\<lparr>email := addr\<rparr>) ''info'' (Email_generated addr) w1)))"
  using register_try_cases [OF rq]
  by (auto simp: register_account_def)

lemma request_email_post:
  assumes "d \<noteq> []"
  shows "http_calls (trace (snd (request_email en c (base_url c @ ''/api/generate-email'') (Some d) w))) =
           http_calls (trace w) @
             [generate_request c ''POST''
                (Some (JObj [(''prefix'', JStr (fst (choices en (ascii_lowercase @ digits) 10 w))),
                             (''domain'', JStr d)]))]"
    and "drawn (snd (request_email en c (base_url c @ ''/api/generate-email'') (Some d) w)) = drawn w + 10"
  using assms
  by (simp_all add: request_email_def client_request_calls generate_request_def choices_def
      del: upt.simps upt_Suc)

lemma request_email_get:
  assumes "domain = None \<or> domain = Some []"
  shows "http_calls (trace (snd (request_email en c (base_url c @ ''/api/generate-email'') domain w))) =
           http_calls (trace w) @ [generate_request c ''GET'' None]"
    and "drawn (snd (request_email en c (base_url c @ ''/api/generate-email'') domain w)) = drawn w"
  using assms
  by (auto simp: request_email_def client_request_calls generate_request_def)

lemma register_account_calls:
  shows "http_calls (trace (snd (snd (register_account en c domain w)))) =
     http_calls (trace (snd (request_email en c (base_url c @ ''/api/generate-email'') domain w)))"
  and "drawn (snd (snd (register_account en c domain w))) =
     drawn (snd (request_email en c (base_url c @ ''/api/generate-email'') domain w))"
  using register_account_cases [of en c domain w
      "fst (request_email en c (base_url c @ ''/api/generate-email'') domain w)"
      "snd (request_email en c (base_url c @ ''/api/generate-email'') domain w)"]
  by auto

lemma choices_alphabet:
  assumes "population \<noteq> []"
  shows "length (fst (choices en population k w)) = k"
    and "set (fst (choices en population k w)) \<subseteq> set population"
  using assms by (auto simp: choices_def)

lemma register_account_total:
  shows "\<exists>b. fst (register_account en c domain w) = Inr b"
    and "fst (register_account en c domain w) = Inr False \<Longrightarrow>
           fst (snd (register_account en c domain w)) = c \<and>
           (log_callback c \<noteq> None \<longrightarrow>
              (\<exists>new m. trace (snd (snd (register_account en c domain w))) =
                 trace w @ new @ [Logged ''error'' m]))"
proof -
  let ?rq = "request_email en c (base_url c @ ''/api/generate-email'') domain w"
  note cases = register_account_cases [of en c domain w "fst ?rq" "snd ?rq", simplified]
  show "\<exists>b. fst (register_account en c domain w) = Inr b"
    using cases by auto
  obtain new where new: "trace (snd ?rq) = trace w @ new"
    using request_email_extends [of w en c "base_url c @ ''/api/generate-email''" domain]
    by (auto simp: extends_def)
  assume "fst (register_account en c domain w) = Inr False"
  then obtain m where
    m: "register_account en c domain w = (Inr False, c, client_log c ''error'' m (snd ?rq))"
    using cases by auto
  show "fst (snd (register_account en c domain w)) = c \<and>
           (log_callback c \<noteq> None \<longrightarrow>
              (\<exists>new m. trace (snd (snd (register_account en c domain w))) =
                 trace w @ new @ [Logged ''error'' m]))"
    by (auto simp: m trace_client_log_Some new)
qed

section \<open>The claims of the specification\<close>

text \<open>
  Claim C1, as amended. For a registered mailbox and a positive interval,
  \<open>poll_for_code\<close> never sends more than \<open>max(0, timeout // interval)\<close> fetch
  requests, each of them the request for the mailbox's messages, and whenever it returns
  nothing it has sent exactly \<open>max(0, timeout // interval)\<close> of them: \<open>timeout //
  interval\<close> for a timeout that is not negative, none for a negative one. If moreover
  the interval is at most 9223372036 seconds (the longest \<open>time.sleep\<close> accepts), the
  timeout has at most 4300 decimal digits (so that the log line can be formatted) and no
  fetch-and-scan attempt ever yields a code, it does return nothing.
\<close>

theorem poll_for_code_exhausted:
  assumes "truthy (email c)"
    and "0 < interval"
  shows "(\<exists>k. k \<le> nat (timeout div interval) \<and>
            http_calls (trace (snd (poll_for_code en c timeout interval since_time w))) =
              http_calls (trace w) @ replicate k (emails_request c)) \<and>
         (interval \<le> 9223372036 \<and> \<bar>timeout\<bar> < 10 ^ int_max_str_digits \<and>
          (\<forall>w'. fst (fetch_verification_code en c since_time w') = Inr None) \<longrightarrow>
            fst (poll_for_code en c timeout interval since_time w) = Inr None) \<and>
         (fst (poll_for_code en c timeout interval since_time w) = Inr None \<longrightarrow>
            http_calls (trace (snd (poll_for_code en c timeout interval since_time w))) =
              http_calls (trace w) @ replicate (nat (timeout div interval)) (emails_request c) \<and>
            (0 \<le> timeout \<longrightarrow>
               int (length (http_calls (trace (snd (poll_for_code en c timeout interval since_time w))))) =
                 int (length (http_calls (trace w))) + timeout div interval))"
proof -
  let ?w' = "snd (poll_for_code en c timeout interval since_time w)"
  obtain k where k: "k \<le> nat (timeout div interval)"
    and io: "io_events (trace ?w') =
               io_events (trace w) @ polling_schedule (emails_request c) interval k"
    and full: "fst (poll_for_code en c timeout interval since_time w) = Inr None \<longrightarrow>
                 k = nat (timeout div interval)"
    using poll_for_code_schedule [OF assms, of timeout en since_time w] by blast
  have "http_calls (io_events (trace ?w')) =
          http_calls (io_events (trace w) @ polling_schedule (emails_request c) interval k)"
    by (simp only: io)
  then have calls: "http_calls (trace ?w') = http_calls (trace w) @ replicate k (emails_request c)"
    by simp
  have nn: "0 \<le> timeout \<Longrightarrow> 0 \<le> timeout div interval"
    using assms(2) by (simp add: pos_imp_zdiv_nonneg_iff)
  have a: "\<exists>k. k \<le> nat (timeout div interval) \<and>
            http_calls (trace ?w') = http_calls (trace w) @ replicate k (emails_request c)"
    using k calls by blast
  have b: "interval \<le> 9223372036 \<and> \<bar>timeout\<bar> < 10 ^ int_max_str_digits \<and>
          (\<forall>w'. fst (fetch_verification_code en c since_time w') = Inr None) \<longrightarrow>
            fst (poll_for_code en c timeout interval since_time w) = Inr None"
    using poll_for_code_no_code [OF assms, of timeout en since_time w]
    by (simp add: format_int_iff)
  have d: "fst (poll_for_code en c timeout interval since_time w) = Inr None \<longrightarrow>
            http_calls (trace ?w') =
              http_calls (trace w) @ replicate (nat (timeout div interval)) (emails_request c) \<and>
            (0 \<le> timeout \<longrightarrow>
               int (length (http_calls (trace ?w'))) =
                 int (length (http_calls (trace w))) + timeout div interval)"
    using calls full nn by auto
  show ?thesis
    using a b d by blast
qed

theorem poll_for_code_exhausted_witness:
  "fst (poll_for_code offline_env registered_client 120 4 None empty_world) = Inr None \<and>
   length (http_calls (trace (snd (poll_for_code offline_env registered_client 120 4 None empty_world)))) = 30"
proof -
  have t: "truthy (email registered_client)" "(0::int) < 4"
    by (simp_all add: registered_client_def)
  have e: "http_calls (trace empty_world) = []"
    by (simp add: empty_world_def)
  have f: "\<bar>120::int\<bar> < 10 ^ int_max_str_digits"
    by (rule below_limit [of _ 3]) simp_all
  show ?thesis
    using poll_for_code_exhausted [OF t, of 120 offline_env None empty_world] f
    by (simp add: offline_never e)
qed

text \<open>
  Claim C1 as it was stated, for every timeout and every positive interval, fails in
  three ways. With timeout \<open>-5\<close> and interval \<open>4\<close> the client sends no request,
  while \<open>-5 // 4\<close> is \<open>-2\<close>. With timeout \<open>2 * 10^20\<close> and interval \<open>10^20\<close>
  the floor division is 2, but the sleep after the first request raises
  \<open>OverflowError\<close>. With timeout \<open>10^4300\<close> and interval 1 formatting the first log
  line raises \<open>ValueError\<close> before any request.
\<close>

theorem poll_for_code_attempt_count_counterexample:
  "truthy (email registered_client) \<and>
   fst (poll_for_code offline_env registered_client (- 5) 4 None empty_world) = Inr None \<and>
   length (http_calls (trace (snd (poll_for_code offline_env registered_client (- 5) 4 None empty_world)))) = 0 \<and>
   (- 5 :: int) div 4 = - 2 \<and>
   (200000000000000000000 :: int) div 100000000000000000000 = 2 \<and>
   fst (poll_for_code offline_env registered_client 200000000000000000000 100000000000000000000
          None empty_world) = Inl OverflowError \<and>
   length (http_calls (trace (snd (poll_for_code offline_env registered_client
          200000000000000000000 100000000000000000000 None empty_world)))) = 1 \<and>
   poll_for_code offline_env registered_client (10 ^ 4300) 1 None empty_world =
     (Inl ValueError, empty_world)"
proof -
  have t: "truthy (email registered_client)"
    by (simp add: registered_client_def)
  have ew: "trace empty_world = []"
    by (simp add: empty_world_def)
  have f5: "format_int (- 5) = Inr ()"
    by (rule format_int_ok [of _ 1]) simp_all
  have a: "poll_for_code offline_env registered_client (- 5) 4 None empty_world =
             (Inr None,
              client_log registered_client ''error'' (Polling_timed_out (- 5))
                (client_log registered_client ''info'' (Polling_for_code (- 5)) empty_world))"
    by (simp add: poll_for_code_registered [OF t] f5 poll_loop.simps)
  have a1: "fst (poll_for_code offline_env registered_client (- 5) 4 None empty_world) = Inr None"
    and a2: "length (http_calls (trace (snd (poll_for_code offline_env registered_client (- 5) 4
                None empty_world)))) = 0"
    by (simp_all add: a ew)
  have f20: "format_int 200000000000000000000 = Inr ()"
    by (rule format_int_ok [of _ 30]) simp_all
  have d: "(200000000000000000000 :: int) div 100000000000000000000 = 2"
    by simp
  let ?w0 = "client_log registered_client ''info'' (Polling_for_code 200000000000000000000)
               empty_world"
  obtain w1 where f: "fetch_verification_code offline_env registered_client None ?w0 = (Inr None, w1)"
    using offline_never [of registered_client None ?w0]
    by (cases "fetch_verification_code offline_env registered_client None ?w0") simp
  have w1: "http_calls (trace w1) = [emails_request registered_client]"
    using fetch_verification_code_io [of offline_env registered_client None ?w0]
      http_calls_io_events [of "trace w1"]
    by (simp add: f ew del: http_calls_io_events)
  have l: "poll_loop offline_env registered_client None 100000000000000000000 2 1 ?w0 =
             (Inl OverflowError, w1)"
    by (subst poll_loop.simps) (simp add: f sleep_def)
  have b: "poll_for_code offline_env registered_client 200000000000000000000
             100000000000000000000 None empty_world = (Inl OverflowError, w1)"
    by (simp add: poll_for_code_registered [OF t] f20 d l)
  have b1: "fst (poll_for_code offline_env registered_client 200000000000000000000
             100000000000000000000 None empty_world) = Inl OverflowError"
    and b2: "length (http_calls (trace (snd (poll_for_code offline_env registered_client
          200000000000000000000 100000000000000000000 None empty_world)))) = 1"
    by (simp_all add: b w1)
  have fh: "format_int (10 ^ 4300) = Inl ValueError"
    by (rule format_int_fails) (simp only: int_max_str_digits_def abs_ge_self)
  have one: "(1::int) \<noteq> 0" by simp
  have e: "poll_for_code offline_env registered_client (10 ^ 4300) 1 None empty_world =
     (Inl ValueError, empty_world)"
    by (simp only: poll_for_code_registered [OF t one] fh sum.case)
  have m: "(- 5 :: int) div 4 = - 2" by simp
  show ?thesis
    using t a1 a2 m d b1 b2 e by blast
qed

text \<open>
  Claim C2. While the mailbox address is absent (\<open>None\<close>, or any other falsy
  value), \<open>poll_for_code\<close> returns nothing at once, whatever the timeout and the
  interval are: it sends no request and does not sleep, and all it does is hand one
  error entry to the log callback (when the client has a callback; \<open>_log\<close> does
  nothing otherwise).
\<close>

theorem poll_for_code_unregistered:
  assumes "\<not> truthy (email c)"
  shows "poll_for_code en c timeout interval since_time w =
           (Inr None, client_log c ''error'' No_email_address_to_poll_for w) \<and>
         io_events (trace (snd (poll_for_code en c timeout interval since_time w))) =
           io_events (trace w) \<and>
         trace (snd (poll_for_code en c timeout interval since_time w)) =
           trace w @ (case log_callback c of
                        None \<Rightarrow> []
                      | Some cb \<Rightarrow> [Logged ''error'' No_email_address_to_poll_for])"
  using assms by (simp add: poll_for_code_def client_log_eq split: option.splits)

theorem poll_for_code_unregistered_witness:
  "poll_for_code offline_env fresh_client 120 4 None empty_world =
     (Inr None, \<lparr>trace = [Logged ''error'' No_email_address_to_poll_for], drawn = 0\<rparr>)"
  using poll_for_code_unregistered [of fresh_client offline_env 120 4 None empty_world]
  by (simp add: fresh_client_def empty_world_def client_log_eq add_event_def)

text \<open>
  Claim C3. When the provider's answer to the registration request is not a success
  (an exception of the transport, a status other than 200, a \<open>success\<close> flag that is
  false or missing), \<open>register_account\<close> returns \<open>False\<close> and leaves the client,
  and so the stored address, as it was.
\<close>

theorem register_account_failure:
  assumes "request_email en c (base_url c @ ''/api/generate-email'') domain w = (r, w1)"
    and "\<not> provider_success r"
  shows "fst (register_account en c domain w) = Inr False \<and>
         fst (snd (register_account en c domain w)) = c \<and>
         email (fst (snd (register_account en c domain w))) = email c"
  using register_account_cases [OF assms(1)] assms(2) by auto

theorem register_account_failure_witness:
  "fst (register_account offline_env fresh_client None empty_world) = Inr False \<and>
   email (fst (snd (register_account offline_env fresh_client None empty_world))) = JNull \<and>
   fst (register_account failing_env registered_client (Some ''example.org'') empty_world) = Inr False \<and>
   email (fst (snd (register_account failing_env registered_client (Some ''example.org'') empty_world))) =
     JStr ''box@example.org''"
proof -
  have a: "request_email offline_env fresh_client (base_url fresh_client @ ''/api/generate-email'')
             None empty_world =
           (Inl RequestException,
            snd (request_email offline_env fresh_client
                   (base_url fresh_client @ ''/api/generate-email'') None empty_world))"
    by (simp add: request_email_def client_request_def offline_env_def Let_def)
  have b: "request_email failing_env registered_client
             (base_url registered_client @ ''/api/generate-email'') (Some ''example.org'') empty_world =
           (Inr \<lparr>status_code = 503, body = None\<rparr>,
            snd (request_email failing_env registered_client
                   (base_url registered_client @ ''/api/generate-email'') (Some ''example.org'')
                   empty_world))"
    by (simp add: request_email_def client_request_def failing_env_def Let_def choices_def)
  show ?thesis
    using register_account_failure [OF a] register_account_failure [OF b]
    by (simp add: fresh_client_def registered_client_def)
qed

text \<open>
  Claim C4. In every polling run (registered mailbox, positive interval) the attempts
  and sleeps alternate: a sleep of \<open>interval\<close> seconds follows every unsuccessful
  attempt except the last of the \<open>timeout // interval\<close> attempts, and nothing follows
  a successful one. For timeout 12 and interval 4 a run that finds no code makes
  exactly three attempts, with a sleep of 4 seconds after the first and the second and
  none after the third.
\<close>

theorem poll_for_code_sleeps_between_attempts:
  assumes "truthy (email c)"
  shows "(0 < interval \<longrightarrow>
            (\<exists>k. k \<le> nat (timeout div interval) \<and>
               io_events (trace (snd (poll_for_code en c timeout interval since_time w))) =
                 io_events (trace w) @ polling_schedule (emails_request c) interval k \<and>
               (fst (poll_for_code en c timeout interval since_time w) = Inr None \<longrightarrow>
                  k = nat (timeout div interval)))) \<and>
         (fst (poll_for_code en c 12 4 since_time w) = Inr None \<longrightarrow>
            io_events (trace (snd (poll_for_code en c 12 4 since_time w))) =
              io_events (trace w) @
                [HttpCall (emails_request c), Slept 4,
                 HttpCall (emails_request c), Slept 4,
                 HttpCall (emails_request c)])"
proof -
  have n: "nat ((12::int) div 4) = Suc (Suc (Suc 0))" by simp
  have four: "(0::int) < 4" by simp
  have ex: "fst (poll_for_code en c 12 4 since_time w) = Inr None \<longrightarrow>
            io_events (trace (snd (poll_for_code en c 12 4 since_time w))) =
              io_events (trace w) @
                [HttpCall (emails_request c), Slept 4,
                 HttpCall (emails_request c), Slept 4,
                 HttpCall (emails_request c)]"
    using poll_for_code_schedule [OF assms four, of 12 en since_time w]
    unfolding n by auto
  show ?thesis
    using ex poll_for_code_schedule [OF assms, of interval timeout en since_time w]
    by blast
qed

theorem poll_for_code_sleeps_between_attempts_witness:
  "io_events (trace (snd (poll_for_code offline_env registered_client 12 4 None empty_world))) =
     [HttpCall (emails_request registered_client), Slept 4,
      HttpCall (emails_request registered_client), Slept 4,
      HttpCall (emails_request registered_client)] \<and>
   io_events (trace (snd (poll_for_code offline_env registered_client 10 5 None empty_world))) =
     [HttpCall (emails_request registered_client), Slept 5,
      HttpCall (emails_request registered_client)]"
proof -
  have t: "truthy (email registered_client)"
    by (simp add: registered_client_def)
  have e: "io_events (trace empty_world) = []"
    by (simp add: empty_world_def)
  have none: "fst (poll_for_code offline_env registered_client tm iv None empty_world) = Inr None"
    if "0 < iv" and "iv \<le> 5" and "\<bar>tm\<bar> < 10 ^ 2" for tm iv
  proof (rule poll_for_code_no_code [OF t that(1)])
    show "iv \<le> 9223372036" using that(2) by simp
    show "format_int tm = Inr ()" by (rule format_int_ok [OF that(3)]) simp
    show "\<forall>w'. fst (fetch_verification_code offline_env registered_client None w') = Inr None"
      by (simp add: offline_never)
  qed
  have two: "nat ((10::int) div 5) = Suc (Suc 0)" by simp
  have a: "io_events (trace (snd (poll_for_code offline_env registered_client 12 4 None empty_world))) =
     [HttpCall (emails_request registered_client), Slept 4,
      HttpCall (emails_request registered_client), Slept 4,
      HttpCall (emails_request registered_client)]"
    using poll_for_code_sleeps_between_attempts [OF t, of 5 10 offline_env None empty_world]
      none [of 4 12]
    by (simp add: e)
  have b: "io_events (trace (snd (poll_for_code offline_env registered_client 10 5 None empty_world))) =
     [HttpCall (emails_request registered_client), Slept 5,
      HttpCall (emails_request registered_client)]"
    using poll_for_code_sleeps_between_attempts [OF t, of 5 10 offline_env None empty_world]
      none [of 5 10]
    unfolding two
    by (auto simp: e)
  show ?thesis using a b by blast
qed

text \<open>
  Claim C5. With a (non-empty) domain, \<open>register_account\<close> sends exactly one
  request, a POST whose payload holds the domain and a prefix of ten characters, all of
  them lowercase letters or digits, drawn from the random generator at this call (ten
  draws are consumed). Without a domain it sends exactly one request, a GET without
  payload.
\<close>

theorem register_account_request_method:
  "(d \<noteq> [] \<longrightarrow>
      (\<exists>p. p = fst (choices en (ascii_lowercase @ digits) 10 w) \<and>
           length p = 10 \<and> set p \<subseteq> set (ascii_lowercase @ digits) \<and>
           http_calls (trace (snd (snd (register_account en c (Some d) w)))) =
             http_calls (trace w) @
               [generate_request c ''POST''
                  (Some (JObj [(''prefix'', JStr p), (''domain'', JStr d)]))] \<and>
           drawn (snd (snd (register_account en c (Some d) w))) = drawn w + 10)) \<and>
   http_calls (trace (snd (snd (register_account en c None w)))) =
     http_calls (trace w) @ [generate_request c ''GET'' None]"
proof -
  have ne: "ascii_lowercase @ digits \<noteq> []"
    by (simp add: ascii_lowercase_def)
  have get: "http_calls (trace (snd (snd (register_account en c None w)))) =
     http_calls (trace w) @ [generate_request c ''GET'' None]"
    by (simp only: register_account_calls(1) request_email_get(1) [of None, simplified])
  have post: "http_calls (trace (snd (snd (register_account en c (Some d) w)))) =
             http_calls (trace w) @
               [generate_request c ''POST''
                  (Some (JObj [(''prefix'', JStr (fst (choices en (ascii_lowercase @ digits) 10 w))),
                               (''domain'', JStr d)]))]"
    and dr: "drawn (snd (snd (register_account en c (Some d) w))) = drawn w + 10"
    if "d \<noteq> []"
    by (simp_all only: register_account_calls request_email_post [OF that])
  show ?thesis
    using get post dr choices_alphabet [OF ne, of en 10 w] by blast
qed

theorem register_account_request_method_witness:
  "http_calls (trace (snd (snd (register_account offline_env fresh_client (Some ''example.org'')
       empty_world)))) =
     [generate_request fresh_client ''POST''
        (Some (JObj [(''prefix'', JStr ''abcdefghij''), (''domain'', JStr ''example.org'')]))] \<and>
   http_calls (trace (snd (snd (register_account offline_env fresh_client None empty_world)))) =
     [generate_request fresh_client ''GET'' None]"
proof -
  have p: "fst (choices offline_env (ascii_lowercase @ digits) 10 empty_world) = ''abcdefghij''"
    by code_simp
  have w: "trace empty_world = []"
    by (simp add: empty_world_def)
  show ?thesis
    using register_account_request_method [of "''example.org''" offline_env empty_world fresh_client]
    by (simp add: p w)
qed

text \<open>
  Claim C6. When scanning with a \<open>since_time\<close>: a message whose timestamp parses
  to a time strictly before \<open>since_time\<close> is skipped, so that scanning the list is
  scanning the rest of it, and a list of this message alone gives no code and no call of
  the extractor, whatever the text of the message is. A message whose timestamp is a
  string that does not parse is scanned: its text is the next thing handed to the
  extractor, and a code found in it is returned.
\<close>

theorem scan_emails_stale_filter:
  "(py_get msg ''created_at'' JNull = Inr (JStr s) \<and> s \<noteq> [] \<and>
    strptime en s = Some t \<and> datetime_less t t0 \<longrightarrow>
      scan_emails en c (Some t0) (msg # rest) w = scan_emails en c (Some t0) rest w \<and>
      scan_emails en c (Some t0) [msg] w = (Inr None, w)) \<and>
   (py_get msg ''created_at'' JNull = Inr (JStr s) \<and> s \<noteq> [] \<and>
    strptime en s = None \<and> full_text msg = Inr text \<longrightarrow>
      (\<exists>new. trace (snd (scan_emails en c (Some t0) (msg # rest) w)) =
                trace w @ Extracted text # new) \<and>
      (\<forall>code. extract_verification_code en text = Inr (Some code) \<and> code \<noteq> [] \<longrightarrow>
                fst (scan_emails en c (Some t0) (msg # rest) w) = Inr (Some code)))"
proof (intro conjI impI)
  assume h: "py_get msg ''created_at'' JNull = Inr (JStr s) \<and> s \<noteq> [] \<and>
    strptime en s = Some t \<and> datetime_less t t0"
  then have tf: "time_filter en (Some t0) msg = Inr True"
    by (simp add: time_filter_stale)
  show "scan_emails en c (Some t0) (msg # rest) w = scan_emails en c (Some t0) rest w"
    by (simp add: tf)
  show "scan_emails en c (Some t0) [msg] w = (Inr None, w)"
    by (simp add: tf)
next
  assume h: "py_get msg ''created_at'' JNull = Inr (JStr s) \<and> s \<noteq> [] \<and>
    strptime en s = None \<and> full_text msg = Inr text"
  then have tf: "time_filter en (Some t0) msg = Inr False" and ft: "full_text msg = Inr text"
    by (simp_all add: time_filter_unparsable)
  show "\<exists>new. trace (snd (scan_emails en c (Some t0) (msg # rest) w)) =
                trace w @ Extracted text # new"
    using scan_emails_scanned [OF tf ft] by blast
  show "\<forall>code. extract_verification_code en text = Inr (Some code) \<and> code \<noteq> [] \<longrightarrow>
                fst (scan_emails en c (Some t0) (msg # rest) w) = Inr (Some code)"
    using scan_emails_scanned [OF tf ft] by blast
qed

theorem scan_emails_stale_filter_witness:
  "scan_emails demo_env registered_client (Some demo_since) [stale_msg] empty_world =
     (Inr None, empty_world) \<and>
   fst (scan_emails demo_env registered_client (Some demo_since) [odd_msg] empty_world) =
     Inr (Some ''123456'') \<and>
   (\<exists>new. trace (snd (scan_emails demo_env registered_client (Some demo_since) [odd_msg] empty_world)) =
      trace empty_world @ Extracted ''Your code is 123456 '' # new)"
proof -
  have a: "py_get stale_msg ''created_at'' JNull = Inr (JStr ''2025-11-14 10:30:00'') \<and>
           ''2025-11-14 10:30:00'' \<noteq> [] \<and>
           strptime demo_env ''2025-11-14 10:30:00'' =
             Some \<lparr>dt_year = 2025, dt_month = 11, dt_day = 14, dt_hour = 10, dt_minute = 30,
                 dt_second = 0, dt_microsecond = 0\<rparr> \<and>
           datetime_less \<lparr>dt_year = 2025, dt_month = 11, dt_day = 14, dt_hour = 10, dt_minute = 30,
                 dt_second = 0, dt_microsecond = 0\<rparr> demo_since"
    by (simp add: stale_msg_def demo_env_def demo_strptime_def datetime_less_def demo_since_def)
  have b: "py_get odd_msg ''created_at'' JNull = Inr (JStr ''yesterday'') \<and>
           ''yesterday'' \<noteq> [] \<and> strptime demo_env ''yesterday'' = None \<and>
           full_text odd_msg = Inr ''Your code is 123456 ''"
    by (simp add: odd_msg_def demo_env_def demo_strptime_def full_text_def)
  have e: "extract_verification_code demo_env ''Your code is 123456 '' = Inr (Some ''123456'')"
    by (simp add: demo_env_def)
  note stale = scan_emails_stale_filter
        [of stale_msg "''2025-11-14 10:30:00''" demo_env
          "\<lparr>dt_year = 2025, dt_month = 11, dt_day = 14, dt_hour = 10, dt_minute = 30,
                 dt_second = 0, dt_microsecond = 0\<rparr>"
          demo_since registered_client "[]" empty_world]
  note odd = scan_emails_stale_filter
        [of odd_msg "''yesterday''" demo_env _ demo_since registered_client "[]" empty_world
          "''Your code is 123456 ''"]
  have r1: "scan_emails demo_env registered_client (Some demo_since) [stale_msg] empty_world =
     (Inr None, empty_world)"
    using stale a by blast
  have r2: "fst (scan_emails demo_env registered_client (Some demo_since) [odd_msg] empty_world) =
     Inr (Some ''123456'')"
    using odd b e by blast
  have r3: "\<exists>new. trace (snd (scan_emails demo_env registered_client (Some demo_since) [odd_msg]
       empty_world)) = trace empty_world @ Extracted ''Your code is 123456 '' # new"
    using odd b by blast
  show ?thesis
    using r1 r2 r3 by blast
qed

text \<open>
  Claim C7, as amended. \<open>register_account\<close> never raises, for any input: it always
  returns a boolean. \<open>poll_for_code\<close> never raises when the interval is positive and
  at most 9223372036 seconds (the longest \<open>time.sleep\<close> accepts) and the timeout has at
  most 4300 decimal digits (so that its log lines can be formatted), for every
  \<open>since_time\<close> and every behaviour of the provider, the extractor and the log callback:
  it returns a code or nothing. Whenever \<open>register_account\<close> returns \<open>False\<close> or
  \<open>poll_for_code\<close> returns nothing, the last thing the call did was an error entry for
  the log callback (when there is one).
\<close>

theorem client_failures_are_results:
  "(\<exists>b. fst (register_account en c domain w) = Inr b) \<and>
   (fst (register_account en c domain w) = Inr False \<longrightarrow>
      log_callback c \<noteq> None \<longrightarrow>
        (\<exists>new m. trace (snd (snd (register_account en c domain w))) =
           trace w @ new @ [Logged ''error'' m])) \<and>
   (0 < interval \<and> interval \<le> 9223372036 \<and> \<bar>timeout\<bar> < 10 ^ int_max_str_digits \<longrightarrow>
      (\<exists>r. fst (poll_for_code en c timeout interval since_time w) = Inr r) \<and>
      (fst (poll_for_code en c timeout interval since_time w) = Inr None \<longrightarrow>
       log_callback c \<noteq> None \<longrightarrow>
         (\<exists>new m. trace (snd (poll_for_code en c timeout interval since_time w)) =
            trace w @ new @ [Logged ''error'' m])))"
proof -
  have poll: "(\<exists>r. fst (poll_for_code en c timeout interval since_time w) = Inr r) \<and>
      (fst (poll_for_code en c timeout interval since_time w) = Inr None \<longrightarrow>
       log_callback c \<noteq> None \<longrightarrow>
         (\<exists>new m. trace (snd (poll_for_code en c timeout interval since_time w)) =
            trace w @ new @ [Logged ''error'' m]))"
    if "0 < interval" and "interval \<le> 9223372036" and "\<bar>timeout\<bar> < 10 ^ int_max_str_digits"
  proof -
    have fm: "format_int timeout = Inr ()"
      using that(3) by (simp only: format_int_iff)
    show ?thesis
      using poll_for_code_total [OF that(1,2) fm, of en c since_time w] by blast
  qed
  show ?thesis
    using register_account_total [of en c domain w] poll by blast
qed

theorem client_failures_are_results_witness:
  "fst (register_account offline_env fresh_client None empty_world) = Inr False \<and>
   (\<exists>new m. trace (snd (snd (register_account offline_env fresh_client None empty_world))) =
      trace empty_world @ new @ [Logged ''error'' m]) \<and>
   fst (poll_for_code offline_env registered_client 12 4 None empty_world) = Inr None \<and>
   (\<exists>new m. trace (snd (poll_for_code offline_env registered_client 12 4 None empty_world)) =
      trace empty_world @ new @ [Logged ''error'' m])"
proof -
  have r: "fst (register_account offline_env fresh_client None empty_world) = Inr False"
    by (simp add: register_account_def register_try_def request_email_def client_request_def
        offline_env_def Let_def)
  have t: "truthy (email registered_client)"
    by (simp add: registered_client_def)
  have four: "(0::int) < 4 \<and> (4::int) \<le> 9223372036 \<and> \<bar>12::int\<bar> < 10 ^ int_max_str_digits"
    using below_limit [of 12 2] by simp
  have p: "fst (poll_for_code offline_env registered_client 12 4 None empty_world) = Inr None"
  proof (rule poll_for_code_no_code [OF t])
    show "format_int 12 = Inr ()" by (rule format_int_ok [of _ 2]) simp_all
    show "\<forall>w'. fst (fetch_verification_code offline_env registered_client None w') = Inr None"
      by (simp add: offline_never)
  qed simp_all
  have cb: "log_callback fresh_client \<noteq> None" "log_callback registered_client \<noteq> None"
    by (simp_all add: fresh_client_def registered_client_def)
  show ?thesis
    using client_failures_are_results [of offline_env fresh_client None empty_world]
      client_failures_are_results [of offline_env registered_client None empty_world 4 12 None]
      r p cb four
    by blast
qed

text \<open>
  Claim C7 as it was stated, for every timeout and interval, fails, because
  \<open>poll_for_code\<close> has no handler of its own: with interval \<open>0\<close> the floor division
  raises \<open>ZeroDivisionError\<close>; with a negative interval and a negative timeout the sleep
  after the first attempt raises \<open>ValueError\<close>; with interval \<open>10^20\<close> and timeout
  \<open>2 * 10^20\<close> that sleep raises \<open>OverflowError\<close>; and with timeout \<open>10^4300\<close>
  formatting the first log line raises \<open>ValueError\<close>.
\<close>

theorem poll_for_code_raises_counterexample:
  "truthy (email registered_client) \<and>
   fst (poll_for_code offline_env registered_client 120 0 None empty_world) =
     Inl ZeroDivisionError \<and>
   fst (poll_for_code offline_env registered_client (- 12) (- 4) None empty_world) =
     Inl ValueError \<and>
   fst (poll_for_code offline_env registered_client 200000000000000000000 100000000000000000000
          None empty_world) = Inl OverflowError \<and>
   fst (poll_for_code offline_env registered_client (10 ^ 4300) 4 None empty_world) =
     Inl ValueError"
proof -
  have t: "truthy (email registered_client)"
    by (simp add: registered_client_def)
  have f: "fetch_verification_code offline_env registered_client None w =
             (Inr None, snd (fetch_verification_code offline_env registered_client None w))" for w
    using offline_never [of registered_client None w]
    by (cases "fetch_verification_code offline_env registered_client None w") simp
  have a: "fst (poll_for_code offline_env registered_client 120 0 None empty_world) =
     Inl ZeroDivisionError"
    using t by (simp add: poll_for_code_def py_floordiv_def)
  have l: "fst (poll_loop offline_env registered_client None (- 4) 3 1 w) = Inl ValueError" for w
    by (subst poll_loop.simps) (subst f, simp add: sleep_def)
  have f12: "format_int (- 12) = Inr ()"
    by (rule format_int_ok [of _ 2]) simp_all
  have d: "(- 12 :: int) div (- 4) = 3" by simp
  obtain w2 where
    "poll_loop offline_env registered_client None (- 4) 3 1
       (client_log registered_client ''info'' (Polling_for_code (- 12)) empty_world) =
     (Inl ValueError, w2)"
    using l [of "client_log registered_client ''info'' (Polling_for_code (- 12)) empty_world"]
    by (cases "poll_loop offline_env registered_client None (- 4) 3 1
       (client_log registered_client ''info'' (Polling_for_code (- 12)) empty_world)") simp
  then have b: "fst (poll_for_code offline_env registered_client (- 12) (- 4) None empty_world) =
     Inl ValueError"
    by (simp add: poll_for_code_registered [OF t] f12 d)
  have l': "fst (poll_loop offline_env registered_client None 100000000000000000000 2 1 w) =
              Inl OverflowError" for w
    by (subst poll_loop.simps) (subst f, simp add: sleep_def)
  have f20: "format_int 200000000000000000000 = Inr ()"
    by (rule format_int_ok [of _ 30]) simp_all
  have d': "(200000000000000000000 :: int) div 100000000000000000000 = 2" by simp
  obtain w3 where
    "poll_loop offline_env registered_client None 100000000000000000000 2 1
       (client_log registered_client ''info'' (Polling_for_code 200000000000000000000)
          empty_world) =
     (Inl OverflowError, w3)"
    using l' [of "client_log registered_client ''info'' (Polling_for_code 200000000000000000000)
          empty_world"]
    by (cases "poll_loop offline_env registered_client None 100000000000000000000 2 1
       (client_log registered_client ''info'' (Polling_for_code 200000000000000000000)
          empty_world)") simp
  then have e: "fst (poll_for_code offline_env registered_client 200000000000000000000
          100000000000000000000 None empty_world) = Inl OverflowError"
    by (simp add: poll_for_code_registered [OF t] f20 d')
  have fh: "format_int (10 ^ 4300) = Inl ValueError"
    by (rule format_int_fails) (simp only: int_max_str_digits_def abs_ge_self)
  have four: "(4::int) \<noteq> 0" by simp
  have "poll_for_code offline_env registered_client (10 ^ 4300) 4 None empty_world =
     (Inl ValueError, empty_world)"
    by (simp only: poll_for_code_registered [OF t four] fh sum.case)
  then have g: "fst (poll_for_code offline_env registered_client (10 ^ 4300) 4 None empty_world) =
     Inl ValueError"
    by (simp only: fst_conv)
  show ?thesis
    using t a b e g by blast
qed

text \<open>
  Claim C8. When the transport fails or the status is not 200, one fetch-and-scan
  step returns nothing instead of raising, and the polling loop goes on as after any
  attempt without a code: to the sleep and the next attempt when attempts remain, to
  the end of the loop otherwise.
\<close>

theorem fetch_failure_is_no_code:
  assumes "client_request en c ''GET'' (base_url c @ ''/api/emails'') None
             (Some [(''email'', email c)]) w = (r, w1)"
    and "case r of Inl e \<Rightarrow> True | Inr res \<Rightarrow> status_code res \<noteq> 200"
  shows "fst (fetch_verification_code en c since_time w) = Inr None \<and>
         (i \<le> max_retries \<longrightarrow>
            poll_loop en c since_time interval max_retries i w =
              (if i < max_retries then
                 (case sleep interval (snd (fetch_verification_code en c since_time w)) of
                    (Inl e, w2) \<Rightarrow> (Inl e, w2)
                  | (Inr u, w2) \<Rightarrow> poll_loop en c since_time interval max_retries (i + 1) w2)
               else poll_loop en c since_time interval max_retries (i + 1)
                      (snd (fetch_verification_code en c since_time w))))"
proof -
  have f: "fst (fetch_verification_code en c since_time w) = Inr None"
  proof (cases r)
    case (Inl e)
    then have "fetch_try en c since_time w = (Inl e, w1)"
      using assms(1) by (simp add: fetch_try_def)
    then show ?thesis by (simp add: fetch_verification_code_def)
  next
    case (Inr res)
    then have "fetch_try en c since_time w = (Inr None, w1)"
      using assms by (simp add: fetch_try_def)
    then show ?thesis by (simp add: fetch_verification_code_def)
  qed
  obtain w' where f': "fetch_verification_code en c since_time w = (Inr None, w')"
    using f by (cases "fetch_verification_code en c since_time w") simp
  have "i \<le> max_retries \<Longrightarrow>
            poll_loop en c since_time interval max_retries i w =
              (if i < max_retries then
                 (case sleep interval w' of
                    (Inl e, w2) \<Rightarrow> (Inl e, w2)
                  | (Inr u, w2) \<Rightarrow> poll_loop en c since_time interval max_retries (i + 1) w2)
               else poll_loop en c since_time interval max_retries (i + 1) w')"
    by (subst poll_loop.simps) (simp add: f')
  then show ?thesis
    using f by (simp add: f')
qed

theorem fetch_failure_is_no_code_witness:
  "fst (fetch_verification_code failing_env registered_client None empty_world) = Inr None \<and>
   fst (fetch_verification_code offline_env registered_client None empty_world) = Inr None \<and>
   io_events (trace (snd (poll_loop failing_env registered_client None 4 2 1 empty_world))) =
     io_events (trace (snd (poll_loop failing_env registered_client None 4 2 2
        (add_event (Slept 4)
           (snd (fetch_verification_code failing_env registered_client None empty_world))))))"
proof -
  have a: "client_request failing_env registered_client ''GET''
             (base_url registered_client @ ''/api/emails'') None
             (Some [(''email'', email registered_client)]) empty_world =
           (Inr \<lparr>status_code = 503, body = None\<rparr>,
            snd (client_request failing_env registered_client ''GET''
             (base_url registered_client @ ''/api/emails'') None
             (Some [(''email'', email registered_client)]) empty_world))"
    by (simp add: client_request_def failing_env_def Let_def)
  have b: "client_request offline_env registered_client ''GET''
             (base_url registered_client @ ''/api/emails'') None
             (Some [(''email'', email registered_client)]) empty_world =
           (Inl RequestException,
            snd (client_request offline_env registered_client ''GET''
             (base_url registered_client @ ''/api/emails'') None
             (Some [(''email'', email registered_client)]) empty_world))"
    by (simp add: client_request_def offline_env_def Let_def)
  show ?thesis
    using fetch_failure_is_no_code [OF a, of None 1 2 4]
      fetch_failure_is_no_code [OF b, of None 1 2 4]
    by (simp add: sleep_def)
qed

text \<open>
  Claim C9. With a \<open>since_time\<close>, a message that has no \<open>created_at\<close> entry at
  all passes the stale-message filter and is scanned: its text is the next thing handed
  to the extractor, and a code found in it is returned.
\<close>

theorem scan_emails_missing_timestamp:
  assumes "map_of kvs ''created_at'' = None"
  shows "time_filter en (Some t0) (JObj kvs) = Inr False \<and>
         (full_text (JObj kvs) = Inr text \<longrightarrow>
            (\<exists>new. trace (snd (scan_emails en c (Some t0) (JObj kvs # rest) w)) =
                      trace w @ Extracted text # new) \<and>
            (\<forall>code. extract_verification_code en text = Inr (Some code) \<and> code \<noteq> [] \<longrightarrow>
                      fst (scan_emails en c (Some t0) (JObj kvs # rest) w) = Inr (Some code)))"
  using scan_emails_scanned [OF time_filter_absent [OF assms]] time_filter_absent [OF assms]
  by blast

theorem scan_emails_missing_timestamp_witness:
  "time_filter demo_env (Some demo_since) bare_msg = Inr False \<and>
   fst (scan_emails demo_env registered_client (Some demo_since) [bare_msg] empty_world) =
     Inr (Some ''123456'')"
proof -
  have a: "map_of [(''content'', JStr ''Your code is 123456''), (''html_content'', JStr [])]
             ''created_at'' = None"
    by simp
  have b: "full_text bare_msg = Inr ''Your code is 123456 ''"
    by (simp add: bare_msg_def full_text_def)
  have e: "extract_verification_code demo_env ''Your code is 123456 '' = Inr (Some ''123456'')"
    by (simp add: demo_env_def)
  note bare = scan_emails_missing_timestamp
      [OF a, of demo_env demo_since "''Your code is 123456 ''" registered_client "[]" empty_world]
  have r1: "time_filter demo_env (Some demo_since) bare_msg = Inr False"
    using bare unfolding bare_msg_def by blast
  have r2: "fst (scan_emails demo_env registered_client (Some demo_since) [bare_msg] empty_world) =
     Inr (Some ''123456'')"
    using bare b e unfolding bare_msg_def by blast
  show ?thesis
    using r1 r2 by blast
qed

text \<open>
  Claim C10, as amended. For a registered mailbox, a positive interval and a timeout
  below the interval (which includes every case where \<open>timeout // interval\<close> is zero),
  the loop body never runs: there is no request and no sleep. When the timeout has at
  most 4300 decimal digits the call returns nothing, having only logged the start and
  the timeout; for a longer timeout formatting the first log line raises
  \<open>ValueError\<close> and the call does nothing else.
\<close>

theorem poll_for_code_zero_attempts:
  assumes "truthy (email c)"
    and "0 < interval"
    and "timeout < interval"
  shows "io_events (trace (snd (poll_for_code en c timeout interval since_time w))) =
           io_events (trace w) \<and>
         (\<bar>timeout\<bar> < 10 ^ int_max_str_digits \<longrightarrow>
            poll_for_code en c timeout interval since_time w =
              (Inr None,
               client_log c ''error'' (Polling_timed_out timeout)
                 (client_log c ''info'' (Polling_for_code timeout) w))) \<and>
         (10 ^ int_max_str_digits \<le> \<bar>timeout\<bar> \<longrightarrow>
            poll_for_code en c timeout interval since_time w = (Inl ValueError, w))"
proof -
  from assms(2) have nz: "interval \<noteq> 0" by simp
  note p = poll_for_code_registered [OF assms(1) nz, of en timeout since_time w]
  have "\<not> 1 < timeout div interval + 1"
    using zero_attempts [OF assms(2,3)] by simp
  then have l: "poll_loop en c since_time interval (timeout div interval) 1 w0 = (Inr None, w0)"
    for w0
    by (simp add: poll_loop.simps)
  have ok: "poll_for_code en c timeout interval since_time w =
              (Inr None,
               client_log c ''error'' (Polling_timed_out timeout)
                 (client_log c ''info'' (Polling_for_code timeout) w))"
    if "format_int timeout = Inr ()"
    by (simp add: p that l)
  have bad: "poll_for_code en c timeout interval since_time w = (Inl ValueError, w)"
    if "format_int timeout = Inl ValueError"
    by (simp add: p that)
  have io: "io_events (trace (snd (poll_for_code en c timeout interval since_time w))) =
           io_events (trace w)"
    using format_int_cases [of timeout] ok bad by auto
  have a: "\<bar>timeout\<bar> < 10 ^ int_max_str_digits \<longrightarrow>
            poll_for_code en c timeout interval since_time w =
              (Inr None,
               client_log c ''error'' (Polling_timed_out timeout)
                 (client_log c ''info'' (Polling_for_code timeout) w))"
    using ok by (simp only: format_int_iff) blast
  have b: "10 ^ int_max_str_digits \<le> \<bar>timeout\<bar> \<longrightarrow>
            poll_for_code en c timeout interval since_time w = (Inl ValueError, w)"
    using bad format_int_fails [of timeout] by blast
  show ?thesis
    using io a b by blast
qed

theorem poll_for_code_zero_attempts_witness:
  "poll_for_code offline_env registered_client 3 4 None empty_world =
     (Inr None,
      \<lparr>trace = [Logged ''info'' (Polling_for_code 3), Logged ''error'' (Polling_timed_out 3)],
       drawn = 0\<rparr>) \<and>
   (3::int) div 4 = 0 \<and>
   poll_for_code offline_env registered_client (- (10 ^ 4300)) 4 None empty_world =
     (Inl ValueError, empty_world)"
proof -
  have t: "truthy (email registered_client)"
    by (simp add: registered_client_def)
  have f: "\<bar>3::int\<bar> < 10 ^ int_max_str_digits"
    by (rule below_limit [of _ 1]) simp_all
  have h: "10 ^ int_max_str_digits \<le> \<bar>- ((10::int) ^ 4300)\<bar>"
    by (simp only: int_max_str_digits_def abs_minus_cancel abs_ge_self)
  have lt: "- ((10::int) ^ 4300) < 4"
    by (rule less_trans [of _ 0]) (simp only: neg_less_0_iff_less zero_less_power zero_less_numeral, simp)
  have four: "(0::int) < 4" and three: "(3::int) < 4"
    by simp_all
  have a: "poll_for_code offline_env registered_client 3 4 None empty_world =
     (Inr None,
      client_log registered_client ''error'' (Polling_timed_out 3)
        (client_log registered_client ''info'' (Polling_for_code 3) empty_world))"
    using poll_for_code_zero_attempts [OF t four three, of offline_env None empty_world] f
    by blast
  have b: "poll_for_code offline_env registered_client (- (10 ^ 4300)) 4 None empty_world =
     (Inl ValueError, empty_world)"
    using poll_for_code_zero_attempts
      [OF t four lt, of offline_env None empty_world] h
    by blast
  have a': "poll_for_code offline_env registered_client 3 4 None empty_world =
     (Inr None,
      \<lparr>trace = [Logged ''info'' (Polling_for_code 3), Logged ''error'' (Polling_timed_out 3)],
       drawn = 0\<rparr>)"
    unfolding a by (simp add: registered_client_def empty_world_def client_log_eq add_event_def)
  have d: "(3::int) div 4 = 0" by simp
  show ?thesis
    using a' d b by blast
qed

text \<open>
  Claim C10 as it was stated, returning nothing for every such timeout, fails for a
  timeout of more than 4300 digits: with timeout \<open>10^4300\<close> and interval
  \<open>10^4300 + 1\<close> the floor division is zero, and formatting the first log line
  raises \<open>ValueError\<close>.
\<close>

theorem poll_for_code_unformattable_timeout_counterexample:
  "truthy (email registered_client) \<and>
   (0::int) < 10 ^ 4300 + 1 \<and>
   (10::int) ^ 4300 div (10 ^ 4300 + 1) = 0 \<and>
   poll_for_code offline_env registered_client (10 ^ 4300) (10 ^ 4300 + 1) None empty_world =
     (Inl ValueError, empty_world)"
proof -
  have t: "truthy (email registered_client)"
    by (simp add: registered_client_def)
  have pos: "(0::int) < 10 ^ 4300"
    by (rule zero_less_power) simp
  have pos1: "(0::int) < 10 ^ 4300 + 1"
    by (rule less_trans [OF pos less_add_one])
  then have nz: "(10::int) ^ 4300 + 1 \<noteq> 0"
    by (rule less_imp_neq [THEN not_sym])
  have d: "(10::int) ^ 4300 div (10 ^ 4300 + 1) = 0"
    by (rule div_pos_pos_trivial) (rule less_imp_le [OF pos], rule less_add_one)
  have fh: "format_int (10 ^ 4300) = Inl ValueError"
    by (rule format_int_fails) (simp only: int_max_str_digits_def abs_ge_self)
  have e: "poll_for_code offline_env registered_client (10 ^ 4300) (10 ^ 4300 + 1) None empty_world =
     (Inl ValueError, empty_world)"
    by (simp only: poll_for_code_registered [OF t nz] fh sum.case)
  show ?thesis
    using t pos1 d e by blast
qed

end
